theory Spec2Isabelle
  imports Main
begin

section \<open>JavaScript strings\<close>

text \<open>
  Strings of \<^verbatim>\<open>policy-generator.js\<close> are modelled as \<^typ>\<open>string\<close>. The functions
  below are the string methods the validators call, with their JavaScript meaning:
  \<^verbatim>\<open>s.startsWith(p)\<close>, \<^verbatim>\<open>s.endsWith(p)\<close>, \<^verbatim>\<open>s.includes(p)\<close>, \<^verbatim>\<open>s.split(c)\<close> for a
  one-character separator, \<^verbatim>\<open>parts.join(sep)\<close> and \<^verbatim>\<open>s.trim()\<close>.
\<close>

definition js_startsWith :: "string \<Rightarrow> string \<Rightarrow> bool" where
  "js_startsWith s p = (take (length p) s = p)"

definition js_endsWith :: "string \<Rightarrow> string \<Rightarrow> bool" where
  "js_endsWith s p = (length p \<le> length s \<and> drop (length s - length p) s = p)"

fun js_includes :: "string \<Rightarrow> string \<Rightarrow> bool" where
  "js_includes [] p = (p = [])"
| "js_includes (c # cs) p = (js_startsWith (c # cs) p \<or> js_includes cs p)"

text \<open>\<^verbatim>\<open>"".split(":")\<close> is \<^verbatim>\<open>[""]\<close>: the result always has at least one part.\<close>

fun js_split :: "char \<Rightarrow> string \<Rightarrow> string list" where
  "js_split sep [] = [[]]"
| "js_split sep (c # cs) =
     (if c = sep then [] # js_split sep cs
      else (case js_split sep cs of
              [] \<Rightarrow> [[c]]
            | p # ps \<Rightarrow> (c # p) # ps))"

fun js_join :: "string \<Rightarrow> string list \<Rightarrow> string" where
  "js_join sep [] = []"
| "js_join sep [p] = p"
| "js_join sep (p # q # ps) = p @ sep @ js_join sep (q # ps)"

text \<open>
  White space and line terminators that \<^verbatim>\<open>trim\<close> removes, among the characters a
  \<^typ>\<open>char\<close> can hold: tab, line feed, vertical tab, form feed, carriage return,
  space and no-break space.
\<close>

definition is_space :: "char \<Rightarrow> bool" where
  "is_space c = (of_char c \<in> set [9, 10, 11, 12, 13, 32, 160 :: nat])"

definition js_trim :: "string \<Rightarrow> string" where
  "js_trim s = rev (dropWhile is_space (rev (dropWhile is_space s)))"

subsection \<open>Character classes of the regular expressions\<close>

definition is_lower :: "char \<Rightarrow> bool" where
  "is_lower c = (c \<in> set ''abcdefghijklmnopqrstuvwxyz'')"

definition is_upper :: "char \<Rightarrow> bool" where
  "is_upper c = (c \<in> set ''ABCDEFGHIJKLMNOPQRSTUVWXYZ'')"

definition is_digit :: "char \<Rightarrow> bool" where
  "is_digit c = (c \<in> set ''0123456789'')"

text \<open>\<^verbatim>\<open>[a-z0-9]\<close>, \<^verbatim>\<open>[a-z0-9-]\<close>, \<^verbatim>\<open>[a-z0-9.-]\<close>, \<^verbatim>\<open>[a-f0-9]\<close> and \<^verbatim>\<open>[a-zA-Z0-9]\<close>.\<close>

definition is_lower_digit :: "char \<Rightarrow> bool" where
  "is_lower_digit c = (is_lower c \<or> is_digit c)"

definition is_lower_digit_hyphen :: "char \<Rightarrow> bool" where
  "is_lower_digit_hyphen c = (is_lower_digit c \<or> c = CHR ''-'')"

definition is_bucket_char :: "char \<Rightarrow> bool" where
  "is_bucket_char c = (is_lower_digit c \<or> c = CHR ''.'' \<or> c = CHR ''-'')"

definition is_hex_lower :: "char \<Rightarrow> bool" where
  "is_hex_lower c = (c \<in> set ''abcdef'' \<or> is_digit c)"

definition is_alnum :: "char \<Rightarrow> bool" where
  "is_alnum c = (is_lower c \<or> is_upper c \<or> is_digit c)"

section \<open>validateBucketName\<close>

record bucket_verdict =
  isValid :: bool
  errors :: "string list"

text \<open>
  \<^verbatim>\<open>/^(\d{1,3}\.){3}\d{1,3}$/\<close>: a digit group holds no dot, so the expression matches
  exactly the strings whose split at the dots is four groups of one to three digits.
\<close>

definition digit_group :: "string \<Rightarrow> bool" where
  "digit_group g = (1 \<le> length g \<and> length g \<le> 3 \<and> list_all is_digit g)"

definition ip_shaped :: "string \<Rightarrow> bool" where
  "ip_shaped s =
     (case js_split CHR ''.'' s of
        [a, b, c, d] \<Rightarrow> digit_group a \<and> digit_group b \<and> digit_group c \<and> digit_group d
      | _ \<Rightarrow> False)"

text \<open>The ten rules run one after the other on the same \<^verbatim>\<open>errors\<close> array.\<close>

definition validateBucketName :: "string \<Rightarrow> bucket_verdict" where
  \<open>validateBucketName bucketName =
     (let errors = [];
          errors = (if length bucketName < 3
                    then errors @ [''Bucket name must be at least 3 characters long'']
                    else errors);
          errors = (if length bucketName > 63
                    then errors @ [''Bucket name cannot exceed 63 characters'']
                    else errors);
          errors = (if \<not> (bucketName \<noteq> [] \<and> list_all is_bucket_char bucketName)
                    then errors @ [''Bucket name can only contain lowercase letters, numbers, dots (.), and hyphens (-)'']
                    else errors);
          errors = (if \<not> (bucketName \<noteq> [] \<and> is_lower_digit (hd bucketName))
                    then errors @ [''Bucket name must begin with a lowercase letter or number'']
                    else errors);
          errors = (if \<not> (bucketName \<noteq> [] \<and> is_lower_digit (last bucketName))
                    then errors @ [''Bucket name must end with a lowercase letter or number'']
                    else errors);
          errors = (if ip_shaped bucketName
                    then errors @ [''Bucket name cannot be formatted as an IP address (e.g., 192.168.1.1)'']
                    else errors);
          errors = (if js_startsWith bucketName ''xn--''
                    then errors @ [''Bucket name cannot start with "xn--"'']
                    else errors);
          errors = (if js_endsWith bucketName ''-s3alias''
                    then errors @ [''Bucket name cannot end with "-s3alias"'']
                    else errors);
          errors = (if js_includes bucketName ''..''
                    then errors @ [''Bucket name cannot contain two adjacent periods (..)'']
                    else errors);
          errors = (if js_includes bucketName ''.-'' \<or> js_includes bucketName ''-.''
                    then errors @ [''Bucket name cannot have a period adjacent to a hyphen'']
                    else errors);
          errors = (if list_ex is_upper bucketName
                    then errors @ [''Bucket name cannot contain uppercase letters'']
                    else errors);
          errors = (if js_includes bucketName ''_''
                    then errors @ [''Bucket name cannot contain underscores (_)'']
                    else errors)
      in \<lparr>isValid = (length errors = 0), errors = errors\<rparr>)\<close>

section \<open>validatePrincipalARN\<close>

record verdict = bucket_verdict +
  warnings :: "string list"

text \<open>
  The object every non-early return builds:
  \<^verbatim>\<open>{ isValid: errors.length === 0, errors: errors, warnings: warnings }\<close>.
\<close>

definition verdict_of :: "string list \<Rightarrow> string list \<Rightarrow> verdict" where
  "verdict_of errs warns = \<lparr>isValid = (length errs = 0), errors = errs, warnings = warns\<rparr>"

text \<open>
  \<^verbatim>\<open>parts[i]\<close> is \<^verbatim>\<open>undefined\<close> past the end of the array (\<^const>\<open>None\<close> here);
  \<open>js_str\<close> is what a template literal prints for it, and \<open>js_truthy_str\<close> is the
  test \<^verbatim>\<open>if (x)\<close> on a string or \<^verbatim>\<open>undefined\<close>.
\<close>

definition js_nth :: "'a list \<Rightarrow> nat \<Rightarrow> 'a option" where
  "js_nth xs i = (if i < length xs then Some (xs ! i) else None)"

definition js_str :: "string option \<Rightarrow> string" where
  "js_str x = (case x of None \<Rightarrow> ''undefined'' | Some s \<Rightarrow> s)"

definition js_truthy_str :: "string option \<Rightarrow> bool" where
  "js_truthy_str x = (case x of None \<Rightarrow> False | Some s \<Rightarrow> s \<noteq> [])"

text \<open>The warning sign U+26A0 that opens two of the warnings, as its three UTF-8 bytes.\<close>

definition warning_sign :: string where
  "warning_sign = [char_of (226 :: nat), char_of (154 :: nat), char_of (160 :: nat)]"

text \<open>\<^verbatim>\<open>/^[a-f0-9]{64}$/\<close> and \<^verbatim>\<open>/^\d{12}$/\<close>.\<close>

definition canonical_id :: "string \<Rightarrow> bool" where
  "canonical_id s = (length s = 64 \<and> list_all is_hex_lower s)"

definition twelve_digits :: "string \<Rightarrow> bool" where
  "twelve_digits s = (length s = 12 \<and> list_all is_digit s)"

text \<open>
  \<^verbatim>\<open>/^[a-z0-9-]+\.(amazonaws\.com|amazon\.com)$/\<close>: a non-empty name over
  \<^verbatim>\<open>[a-z0-9-]\<close> followed by one of the two domains and nothing else.
\<close>

definition service_name :: "string \<Rightarrow> bool" where
  "service_name n = (n \<noteq> [] \<and> list_all is_lower_digit_hyphen n)"

definition service_principal_shape :: "string \<Rightarrow> bool" where
  "service_principal_shape s =
     ((js_endsWith s ''.amazonaws.com'' \<and> service_name (take (length s - 14) s)) \<or>
      (js_endsWith s ''.amazon.com'' \<and> service_name (take (length s - 11) s)))"

definition service_like :: "string \<Rightarrow> bool" where
  "service_like s = (js_includes s ''.amazonaws.com'' \<or> js_includes s ''.amazon.com'')"

text \<open>
  \<^verbatim>\<open>/^arn:(aws|aws-cn|aws-us-gov):([a-z0-9-]+):([a-z0-9-]*):([0-9]{12}|):(.+)$/\<close>.
  The first four groups hold no colon, so the groups are the parts of the split at the
  colons: five fixed parts and a non-empty rest, which \<^verbatim>\<open>.+\<close> keeps free of line
  terminators.
\<close>

definition line_terminator :: "char \<Rightarrow> bool" where
  "line_terminator c = (of_char c \<in> set [10, 13 :: nat])"

definition arnRegex_test :: "string \<Rightarrow> bool" where
  "arnRegex_test s =
     (case js_split CHR '':'' s of
        a # partition' # service # region # account # rest \<Rightarrow>
          a = ''arn'' \<and> partition' \<in> set [''aws'', ''aws-cn'', ''aws-us-gov''] \<and>
          service \<noteq> [] \<and> list_all is_lower_digit_hyphen service \<and>
          list_all is_lower_digit_hyphen region \<and>
          (twelve_digits account \<or> account = []) \<and>
          rest \<noteq> [] \<and> js_join '':'' rest \<noteq> [] \<and>
          \<not> list_ex line_terminator (js_join '':'' rest)
      | _ \<Rightarrow> False)"

text \<open>The branch \<^verbatim>\<open>if (partition === 'ipcld')\<close>, up to its \<^verbatim>\<open>return\<close>.\<close>

definition ipcld_checks :: "string list \<Rightarrow> string list \<Rightarrow> string list" where
  "ipcld_checks parts errs =
     (let errors = errs;
          service = js_nth parts 2;
          canonicalId = js_nth parts 4;
          resource = js_join '':'' (drop 5 parts);
          errors = (if service \<noteq> Some ''iam''
                    then errors @ [''Impossible Cloud ARNs currently only support IAM service (arn:ipcld:iam::...)'']
                    else errors);
          errors = (if \<not> js_truthy_str canonicalId
                    then errors @ [''Impossible Cloud ARN requires a canonical ID (arn:ipcld:iam::YourCanonicalID:...)'']
                    else errors);
          errors = (if resource = []
                    then errors @ [''Impossible Cloud ARN requires a resource (e.g., user/username, policy/policyname)'']
                    else if \<not> js_includes resource ''/''
                    then errors @ [''Impossible Cloud resource must include type/name (e.g., user/username, policy/policyname)'']
                    else errors)
      in errors)"

text \<open>The \<^verbatim>\<open>else\<close> branch of the \<^verbatim>\<open>arnRegex\<close> test: partition, service, IAM and S3 checks.\<close>

definition validServices :: "string list" where
  "validServices = [''iam'', ''s3'', ''sts'']"

definition awsOnlyServices :: "string list" where
  "awsOnlyServices = [''ec2'', ''lambda'', ''cloudfront'', ''elasticloadbalancing'', ''rds'', ''dynamodb'']"

definition validResourceTypes :: "string list" where
  "validResourceTypes =
     [''user'', ''role'', ''group'', ''instance-profile'', ''root'', ''federated-user'', ''assumed-role'']"

definition iam_checks ::
  "string option \<Rightarrow> string option \<Rightarrow> string \<Rightarrow> string list \<Rightarrow> string list \<Rightarrow> string list \<times> string list"
where
  \<open>iam_checks region accountId resource errs warns =
     (let errors = errs; warnings = warns;
          errors = (if \<not> js_truthy_str accountId
                    then errors @ [''IAM ARN requires a 12-digit account ID'']
                    else if \<not> twelve_digits (js_str accountId)
                    then errors @ [''Account ID must be exactly 12 digits, got: '' @ js_str accountId]
                    else errors);
          resourceType = (case js_split CHR ''/'' resource of [] \<Rightarrow> [] | t # _ \<Rightarrow> t);
          errors = (if resource = []
                    then errors @ [''IAM ARN requires a resource (e.g., user/username, role/rolename, or root)'']
                    else if resource \<noteq> ''root'' \<and> \<not> js_includes resource ''/''
                    then errors @ [''IAM resource must be "root" or include type/name (e.g., user/username)'']
                    else errors);
          warnings = (if resource = [] then warnings
                      else if resource \<noteq> ''root'' \<and> \<not> js_includes resource ''/'' then warnings
                      else if resource \<noteq> ''root'' \<and> resourceType \<notin> set validResourceTypes
                      then warnings @ [''Resource type "'' @ resourceType @
                                       ''" may not be valid. Common types: user, role, root'']
                      else warnings);
          warnings = (if js_truthy_str region
                      then warnings @ [''IAM ARNs typically do not specify a region'']
                      else warnings)
      in (errors, warnings))\<close>

definition s3_checks ::
  "string option \<Rightarrow> string option \<Rightarrow> string list \<Rightarrow> string list" where
  "s3_checks region accountId warns =
     (let warnings = warns;
          warnings = (if js_truthy_str accountId
                      then warnings @ [''S3 ARNs typically do not include account ID'']
                      else warnings);
          warnings = (if js_truthy_str region
                      then warnings @ [''S3 ARNs typically do not specify a region'']
                      else warnings)
      in warnings)"

definition aws_checks ::
  "string list \<Rightarrow> string list \<Rightarrow> string list \<Rightarrow> string list \<times> string list" where
  \<open>aws_checks parts errs warns =
     (let errors = errs; warnings = warns;
          partition' = js_nth parts 1;
          service = js_nth parts 2;
          region = js_nth parts 3;
          accountId = js_nth parts 4;
          resource = js_join '':'' (drop 5 parts);
          errors = (if partition' \<notin> set (map Some [''aws'', ''aws-cn'', ''aws-us-gov''])
                    then errors @ [''Invalid partition "'' @ js_str partition' @
                                   ''". Must be: aws, aws-cn, aws-us-gov, or ipcld (Impossible Cloud)'']
                    else errors);
          warnings = (if service \<notin> set (map Some validServices) \<and>
                         service \<notin> set (map Some awsOnlyServices)
                      then warnings @ [''Service "'' @ js_str service @
                                       ''" is unusual for S3 bucket policies. Common services: iam, s3, sts'']
                      else if service \<in> set (map Some awsOnlyServices)
                      then warnings @ [warning_sign @ '' Service "'' @ js_str service @
                                       ''" is AWS-specific and not supported by Impossible Cloud. Use iam, s3, or sts instead.'']
                      else warnings);
          (errors, warnings) = (if service = Some ''iam''
                                then iam_checks region accountId resource errors warnings
                                else (errors, warnings));
          warnings = (if service = Some ''s3''
                      then s3_checks region accountId warnings
                      else warnings)
      in (errors, warnings))\<close>

text \<open>The body of \<^verbatim>\<open>if (principal.startsWith('arn:'))\<close>.\<close>

definition arn_checks ::
  "string \<Rightarrow> string list \<Rightarrow> string list \<Rightarrow> string list \<times> string list" where
  "arn_checks principal' errs warns =
     (let errors = errs; warnings = warns;
          parts = js_split CHR '':'' principal';
          partition' = js_nth parts 1
      in if partition' = Some ''ipcld'' then (ipcld_checks parts errors, warnings)
         else if \<not> arnRegex_test principal'
         then (errors @ [''Invalid ARN format. Expected: arn:aws:service:region:account-id:resource or arn:ipcld:iam::CanonicalID:resource''],
               warnings)
         else aws_checks parts errors warnings)"

text \<open>The body of \<^verbatim>\<open>else if (!principal.includes('.'))\<close>.\<close>

definition account_warning :: string where
  "account_warning =
     ''Using just an account ID. Consider using full ARN format: arn:aws:iam::123456789012:root''"

definition principal_error :: string where
  \<open>principal_error =
     ''Principal must be "*", a valid ARN (arn:aws:... or arn:ipcld:...), canonical user ID (64-char hex), service principal (service.amazonaws.com), or 12-digit account ID''\<close>

definition account_checks ::
  "string \<Rightarrow> string list \<Rightarrow> string list \<Rightarrow> string list \<times> string list" where
  "account_checks principal' errs warns =
     (let errors = errs; warnings = warns
      in if twelve_digits principal'
         then (errors, warnings @ [account_warning])
         else (errors @ [principal_error], warnings))"

definition wildcard_warning :: string where
  \<open>wildcard_warning = ''Using "*" grants public access - ensure this is intentional for security''\<close>

definition canonical_warning :: string where
  "canonical_warning = ''Using canonical user ID - ensure this is an Impossible Cloud canonical ID''"

definition service_error :: string where
  "service_error = ''Service principal format should be: service-name.amazonaws.com''"

definition service_warning :: string where
  "service_warning = warning_sign @
     '' AWS service principals (*.amazonaws.com) may not be supported by Impossible Cloud. Use IAM user/role ARNs instead.''"

text \<open>
  The function itself. A service principal of the wrong shape pushes its error and goes
  on to the ARN test; one of the right shape returns at once.
\<close>

definition validatePrincipalARN :: "string \<Rightarrow> verdict" where
  "validatePrincipalARN principal' =
     (let errors = []; warnings = []
      in if principal' = ''*''
         then \<lparr>isValid = True, errors = [], warnings = warnings @ [wildcard_warning]\<rparr>
         else if principal' = [] \<or> js_trim principal' = []
         then \<lparr>isValid = True, errors = [], warnings = []\<rparr>
         else if canonical_id principal'
         then \<lparr>isValid = True, errors = [], warnings = [canonical_warning]\<rparr>
         else if service_like principal' \<and> service_principal_shape principal'
         then \<lparr>isValid = True, errors = [], warnings = warnings @ [service_warning]\<rparr>
         else
           let errors = (if service_like principal' then errors @ [service_error] else errors);
               (errors, warnings) =
                  (if js_startsWith principal' ''arn:'' then arn_checks principal' errors warnings
                   else if \<not> js_includes principal' ''.'' then account_checks principal' errors warnings
                   else (errors, warnings))
           in verdict_of errors warnings)"

text \<open>
  Not a function of the source: the spec's reading of the order of the branches, for
  comparison with \<open>validatePrincipalARN\<close>. The first branch that applies produces the
  verdict, from empty lists, and no other branch adds to it. The ARN branch is the code's
  own \<open>arn_checks\<close>; the last two branches accept twelve digits with a warning and reject
  everything else.
\<close>

definition spec_single_branch :: "string \<Rightarrow> verdict" where
  "spec_single_branch p =
     (if p = ''*'' then \<lparr>isValid = True, errors = [], warnings = [wildcard_warning]\<rparr>
      else if p = [] \<or> js_trim p = [] then \<lparr>isValid = True, errors = [], warnings = []\<rparr>
      else if canonical_id p then \<lparr>isValid = True, errors = [], warnings = [canonical_warning]\<rparr>
      else if service_like p
      then (if service_principal_shape p
            then \<lparr>isValid = True, errors = [], warnings = [service_warning]\<rparr>
            else verdict_of [service_error] [])
      else if js_startsWith p ''arn:''
      then verdict_of (fst (arn_checks p [] [])) (snd (arn_checks p [] []))
      else if twelve_digits p then verdict_of [] [account_warning]
      else verdict_of [principal_error] [])"

section \<open>JSON values\<close>

text \<open>
  What \<^verbatim>\<open>JSON.parse\<close> returns. An object is the list of its own properties in the
  order \<^verbatim>\<open>Object.keys\<close> enumerates them, with distinct keys. Numbers are modelled as
  integers, which is all the validators can tell apart: they test a number for zero
  and print it.
\<close>

datatype json =
    JNull
  | JBool bool
  | JNum int
  | JStr string
  | JArr "json list"
  | JObj "(string \<times> json) list"

datatype js_exception = TypeError

type_synonym msgs = "string list \<times> string list"

text \<open>
  \<^verbatim>\<open>v.key\<close> on a value that is not \<^verbatim>\<open>null\<close>, for the property names the validators
  read (none is an array index, \<^verbatim>\<open>length\<close> or a prototype member); \<^const>\<open>None\<close> is
  \<^verbatim>\<open>undefined\<close>.
\<close>

definition js_get :: "json \<Rightarrow> string \<Rightarrow> json option" where
  "js_get v key = (case v of JObj kvs \<Rightarrow> map_of kvs key | _ \<Rightarrow> None)"

fun js_truthy :: "json option \<Rightarrow> bool" where
  "js_truthy None = False"
| "js_truthy (Some JNull) = False"
| "js_truthy (Some (JBool b)) = b"
| "js_truthy (Some (JNum n)) = (n \<noteq> 0)"
| "js_truthy (Some (JStr s)) = (s \<noteq> [])"
| "js_truthy (Some (JArr xs)) = True"
| "js_truthy (Some (JObj kvs)) = True"

text \<open>\<^verbatim>\<open>typeof v === 'object' && v !== null\<close>: arrays pass this test too.\<close>

fun js_is_object :: "json \<Rightarrow> bool" where
  "js_is_object (JArr xs) = True"
| "js_is_object (JObj kvs) = True"
| "js_is_object v = False"

text \<open>
  \<^verbatim>\<open>typeof v !== 'object' || v === null || Array.isArray(v)\<close> is the negation of
  \<open>js_plain_object\<close>, also on \<^verbatim>\<open>undefined\<close>.
\<close>

fun js_plain_object :: "json option \<Rightarrow> bool" where
  "js_plain_object (Some (JObj kvs)) = True"
| "js_plain_object v = False"

text \<open>\<^verbatim>\<open>Array.isArray(x) ? x : [x]\<close>.\<close>

fun js_as_list :: "json \<Rightarrow> json list" where
  "js_as_list (JArr xs) = xs"
| "js_as_list v = [v]"

text \<open>Decimal digits of an index or of \<^verbatim>\<open>Date.now()\<close>, as string concatenation prints them.\<close>

definition digit_char :: "nat \<Rightarrow> char" where
  "digit_char d = ''0123456789'' ! d"

fun js_nat_str :: "nat \<Rightarrow> string" where
  "js_nat_str n = (if n < 10 then [digit_char n] else js_nat_str (n div 10) @ [digit_char (n mod 10)])"

declare js_nat_str.simps [simp del]

definition js_int_str :: "int \<Rightarrow> string" where
  "js_int_str i = (if i < 0 then ''-'' @ js_nat_str (nat (- i)) else js_nat_str (nat i))"

text \<open>
  \<^verbatim>\<open>Object.keys(v)\<close> on a value that is not \<^verbatim>\<open>null\<close>: the keys of an object, the
  indices of an array or of a string, nothing for a number or a boolean.
\<close>

fun js_keys :: "json \<Rightarrow> string list" where
  "js_keys (JObj kvs) = map fst kvs"
| "js_keys (JArr xs) = map js_nat_str [0..<length xs]"
| "js_keys (JStr s) = map js_nat_str [0..<length s]"
| "js_keys v = []"

text \<open>
  What a template literal prints for a value. An array prints its elements joined by
  commas, \<^verbatim>\<open>null\<close> elements as nothing. An object prints \<^verbatim>\<open>[object Object]\<close>, unless
  it has a property \<^verbatim>\<open>toString\<close> of its own: no JSON value is callable, so the
  conversion throws a \<^verbatim>\<open>TypeError\<close> (\<^const>\<open>None\<close> here).
\<close>

definition join_all :: "string option list \<Rightarrow> string option" where
  "join_all ps = (if list_all (\<lambda>p. p \<noteq> None) ps then Some (js_join '','' (map the ps)) else None)"

fun js_to_string :: "json \<Rightarrow> string option" where
  "js_to_string JNull = Some ''null''"
| "js_to_string (JBool b) = Some (if b then ''true'' else ''false'')"
| "js_to_string (JNum n) = Some (js_int_str n)"
| "js_to_string (JStr s) = Some s"
| "js_to_string (JArr xs) =
     join_all (map (\<lambda>x. if x = JNull then Some [] else js_to_string x) xs)"
| "js_to_string (JObj kvs) =
     (if ''toString'' \<in> set (map fst kvs) then None else Some ''[object Object]'')"

text \<open>\<^verbatim>\<open>xs.forEach((x, idx) => ...)\<close> with the state the callback updates passed along.\<close>

fun forEach_from :: "nat \<Rightarrow> ('a \<Rightarrow> nat \<Rightarrow> 's \<Rightarrow> 's) \<Rightarrow> 'a list \<Rightarrow> 's \<Rightarrow> 's" where
  "forEach_from i f [] s = s"
| "forEach_from i f (x # xs) s = forEach_from (Suc i) f xs (f x i s)"

definition js_forEach :: "('a \<Rightarrow> nat \<Rightarrow> 's \<Rightarrow> 's) \<Rightarrow> 'a list \<Rightarrow> 's \<Rightarrow> 's" where
  "js_forEach f xs s = forEach_from 0 f xs s"

section \<open>validateActions, validateResources, validateCondition\<close>

definition validS3Actions :: "string list" where
  "validS3Actions =
     [''s3:*'', ''s3:GetObject'', ''s3:PutObject'', ''s3:DeleteObject'', ''s3:GetObjectVersion'',
      ''s3:DeleteObjectVersion'', ''s3:GetObjectAcl'', ''s3:PutObjectAcl'',
      ''s3:GetObjectVersionAcl'', ''s3:PutObjectVersionAcl'', ''s3:GetObjectAttributes'',
      ''s3:GetObjectVersionAttributes'', ''s3:GetObjectTagging'', ''s3:PutObjectTagging'',
      ''s3:DeleteObjectTagging'', ''s3:GetObjectVersionTagging'', ''s3:PutObjectVersionTagging'',
      ''s3:DeleteObjectVersionTagging'', ''s3:GetObjectTorrent'', ''s3:GetObjectVersionTorrent'',
      ''s3:GetObjectAttributes'', ''s3:GetObjectVersionAttributes'', ''s3:ListBucket'',
      ''s3:ListBucketVersions'', ''s3:ListBucketMultipartUploads'', ''s3:GetBucketLocation'',
      ''s3:GetBucketVersioning'', ''s3:PutBucketVersioning'', ''s3:GetBucketAcl'',
      ''s3:PutBucketAcl'', ''s3:GetBucketCORS'', ''s3:PutBucketCORS'', ''s3:DeleteBucketCORS'',
      ''s3:GetBucketWebsite'', ''s3:PutBucketWebsite'', ''s3:DeleteBucketWebsite'',
      ''s3:GetBucketLogging'', ''s3:PutBucketLogging'', ''s3:GetBucketNotification'',
      ''s3:PutBucketNotification'', ''s3:GetBucketPolicy'', ''s3:PutBucketPolicy'',
      ''s3:DeleteBucketPolicy'', ''s3:GetBucketRequestPayment'', ''s3:PutBucketRequestPayment'',
      ''s3:GetBucketTagging'', ''s3:PutBucketTagging'', ''s3:DeleteBucketTagging'',
      ''s3:GetReplicationConfiguration'', ''s3:PutReplicationConfiguration'',
      ''s3:GetAccelerateConfiguration'', ''s3:PutAccelerateConfiguration'',
      ''s3:GetEncryptionConfiguration'', ''s3:PutEncryptionConfiguration'',
      ''s3:GetBucketObjectLockConfiguration'', ''s3:PutBucketObjectLockConfiguration'',
      ''s3:GetObjectLockConfiguration'', ''s3:PutObjectLockConfiguration'',
      ''s3:GetBucketPublicAccessBlock'', ''s3:PutBucketPublicAccessBlock'',
      ''s3:GetObjectLegalHold'', ''s3:PutObjectLegalHold'', ''s3:GetObjectRetention'',
      ''s3:PutObjectRetention'', ''s3:BypassGovernanceRetention'', ''s3:AbortMultipartUpload'',
      ''s3:ListMultipartUploadParts'', ''s3:RestoreObject'']"

text \<open>The callback of \<^verbatim>\<open>actionList.forEach\<close>.\<close>

definition validateAction :: "string \<Rightarrow> json \<Rightarrow> nat \<Rightarrow> msgs \<Rightarrow> msgs" where
  \<open>validateAction prefix action idx m =
     (let errors = fst m; warnings = snd m;
          at = prefix @ ''['' @ js_nat_str idx @ '']: ''
      in case action of
           JStr a \<Rightarrow>
             if \<not> js_includes a '':''
             then (errors @ [at @ ''Invalid format "'' @ a @ ''". Must be "service:action"''],
                   warnings)
             else
               let parts = js_split CHR '':'' a;
                   service = js_nth parts 0;
                   actionName = js_nth parts 1
               in if service \<noteq> Some ''s3'' \<and> a \<noteq> ''*''
                  then (errors, warnings @ [at @ ''"'' @ a @ ''" is not an S3 action''])
                  else if service = Some ''s3'' \<and> actionName \<noteq> Some ''*'' \<and>
                          a \<notin> set validS3Actions \<and> \<not> js_includes (js_str actionName) ''*''
                  then (errors, warnings @ [at @ ''"'' @ a @ ''" may not be a valid S3 action''])
                  else (errors, warnings)
         | _ \<Rightarrow> (errors @ [at @ ''Must be a string''], warnings))\<close>

definition validateActions :: "json \<Rightarrow> string \<Rightarrow> string list \<Rightarrow> string list \<Rightarrow> msgs" where
  "validateActions actions prefix errs warns =
     (let errors = errs; warnings = warns;
          actionList = js_as_list actions
      in if length actionList = 0
         then (errors @ [prefix @ '': Cannot be empty''], warnings)
         else js_forEach (validateAction prefix) actionList (errors, warnings))"

text \<open>
  \<^verbatim>\<open>/^[a-z0-9][a-z0-9.-]*[a-z0-9]$/\<close>: at least two characters, the first and the last in
  \<^verbatim>\<open>[a-z0-9]\<close>, the ones between in \<^verbatim>\<open>[a-z0-9.-]\<close>.
\<close>

definition bucket_shape :: "string \<Rightarrow> bool" where
  "bucket_shape s =
     (case s of
        [] \<Rightarrow> False
      | c # cs \<Rightarrow> is_lower_digit c \<and> cs \<noteq> [] \<and> is_lower_digit (last cs) \<and>
                 list_all is_bucket_char (butlast cs))"

text \<open>The callback of \<^verbatim>\<open>resourceList.forEach\<close>.\<close>

definition validateResource :: "string \<Rightarrow> json \<Rightarrow> nat \<Rightarrow> msgs \<Rightarrow> msgs" where
  \<open>validateResource prefix resource idx m =
     (let errors = fst m; warnings = snd m;
          at = prefix @ ''['' @ js_nat_str idx @ '']: ''
      in case resource of
           JStr r \<Rightarrow>
             if \<not> js_startsWith r ''arn:aws:s3:::'' \<and> r \<noteq> ''*''
             then (errors @ [at @ ''Must be a valid S3 ARN (arn:aws:s3:::...) or "*"''], warnings)
             else if js_startsWith r ''arn:aws:s3:::''
             then
               let bucketPart = drop 13 r;
                   errors = (if bucketPart = []
                             then errors @ [at @ ''Missing bucket name in ARN'']
                             else if js_includes bucketPart ''//''
                             then errors @ [at @ ''Invalid path - contains double slashes'']
                             else errors);
                   hasPath = js_includes bucketPart ''/'';
                   errors = (if \<not> hasPath \<and> length bucketPart > 63
                             then errors @ [at @ ''Bucket name too long (max 63 characters)'']
                             else errors);
                   warnings = (if \<not> hasPath \<and> \<not> bucket_shape bucketPart
                               then warnings @ [at @ ''Bucket name may not follow S3 naming rules'']
                               else warnings)
               in (errors, warnings)
             else (errors, warnings)
         | _ \<Rightarrow> (errors @ [at @ ''Must be a string''], warnings))\<close>

definition validateResources :: "json \<Rightarrow> string \<Rightarrow> string list \<Rightarrow> string list \<Rightarrow> msgs" where
  "validateResources resources prefix errs warns =
     (let errors = errs; warnings = warns;
          resourceList = js_as_list resources
      in if length resourceList = 0
         then (errors @ [prefix @ '': Cannot be empty''], warnings)
         else js_forEach (validateResource prefix) resourceList (errors, warnings))"

definition validConditionOperators :: "string list" where
  "validConditionOperators =
     [''StringEquals'', ''StringNotEquals'', ''StringLike'', ''StringNotLike'',
      ''StringEqualsIgnoreCase'', ''StringNotEqualsIgnoreCase'',
      ''StringEqualsIfExists'', ''StringNotEqualsIfExists'', ''StringLikeIfExists'',
      ''StringNotLikeIfExists'', ''StringEqualsIgnoreCaseIfExists'',
      ''StringNotEqualsIgnoreCaseIfExists'',
      ''NumericEquals'', ''NumericNotEquals'', ''NumericLessThan'', ''NumericLessThanEquals'',
      ''NumericGreaterThan'', ''NumericGreaterThanEquals'',
      ''NumericEqualsIfExists'', ''NumericNotEqualsIfExists'', ''NumericLessThanIfExists'',
      ''NumericLessThanEqualsIfExists'', ''NumericGreaterThanIfExists'',
      ''NumericGreaterThanEqualsIfExists'',
      ''DateEquals'', ''DateNotEquals'', ''DateLessThan'', ''DateLessThanEquals'',
      ''DateGreaterThan'', ''DateGreaterThanEquals'',
      ''DateEqualsIfExists'', ''DateNotEqualsIfExists'', ''DateLessThanIfExists'',
      ''DateLessThanEqualsIfExists'', ''DateGreaterThanIfExists'',
      ''DateGreaterThanEqualsIfExists'',
      ''Bool'', ''BinaryEquals'', ''BoolIfExists'', ''BinaryEqualsIfExists'',
      ''IpAddress'', ''NotIpAddress'', ''IpAddressIfExists'', ''NotIpAddressIfExists'',
      ''ArnEquals'', ''ArnLike'', ''ArnNotEquals'', ''ArnNotLike'', ''ArnEqualsIfExists'',
      ''ArnLikeIfExists'', ''ArnNotEqualsIfExists'', ''ArnNotLikeIfExists'',
      ''Null'']"

text \<open>
  The operator name that is looked up: \<^verbatim>\<open>operator.split(':')[1]\<close> when the key starts
  with one of the two set prefixes, the key itself otherwise.
\<close>

definition operatorToCheck :: "string \<Rightarrow> string option" where
  "operatorToCheck operator =
     (if js_startsWith operator ''ForAllValues:'' \<or> js_startsWith operator ''ForAnyValue:''
      then js_nth (js_split CHR '':'' operator) 1
      else Some operator)"

text \<open>The callback of \<^verbatim>\<open>Object.keys(condition).forEach\<close>.\<close>

definition validateOperator :: "string \<Rightarrow> json \<Rightarrow> string \<Rightarrow> string list \<Rightarrow> string list" where
  \<open>validateOperator prefix condition operator errs =
     (let errors = errs;
          errors = (if operatorToCheck operator \<notin> set (map Some validConditionOperators)
                    then errors @ [prefix @ '': Unknown condition operator "'' @ operator @ ''"'']
                    else errors);
          conditionBlock = js_get condition operator;
          errors = (if \<not> js_plain_object conditionBlock
                    then errors @ [prefix @ ''.'' @ operator @ '': Must be an object'']
                    else errors)
      in errors)\<close>

definition validateCondition :: "json \<Rightarrow> string \<Rightarrow> string list \<Rightarrow> string list \<Rightarrow> msgs" where
  "validateCondition condition prefix errs warns =
     (let errors = errs; warnings = warns
      in if \<not> js_plain_object (Some condition)
         then (errors @ [prefix @ '': Must be an object''], warnings)
         else (fold (validateOperator prefix condition) (js_keys condition) errors, warnings))"

section \<open>validateStatement and validatePolicy\<close>

definition validStmtFields :: "string list" where
  "validStmtFields =
     [''Sid'', ''Effect'', ''Principal'', ''NotPrincipal'', ''Action'', ''NotAction'',
      ''Resource'', ''NotResource'', ''Condition'']"

definition validRootFields :: "string list" where
  "validRootFields = [''Version'', ''Id'', ''Statement'']"

text \<open>
  The check of \<^verbatim>\<open>Sid\<close>: \<^verbatim>\<open>stmt.Sid !== undefined\<close>, then the type, then
  \<^verbatim>\<open>/^[a-zA-Z0-9]+$/\<close>.
\<close>

definition sid_check :: "string \<Rightarrow> json option \<Rightarrow> string list \<Rightarrow> string list" where
  "sid_check prefix sid errs =
     (let errors = errs
      in case sid of
           None \<Rightarrow> errors
         | Some (JStr s) \<Rightarrow>
             if \<not> (s \<noteq> [] \<and> list_all is_alnum s)
             then errors @ [prefix @ '': Sid must contain only alphanumeric characters'']
             else errors
         | Some _ \<Rightarrow> errors @ [prefix @ '': Sid must be a string''])"

text \<open>
  The check of \<^verbatim>\<open>Effect\<close>. The second message prints the value, which throws for an
  object or an array that cannot be converted to a string.
\<close>

definition effect_check ::
  "string \<Rightarrow> json option \<Rightarrow> string list \<Rightarrow> js_exception + string list" where
  \<open>effect_check prefix effect errs =
     (let errors = errs
      in case effect of
           None \<Rightarrow> Inr (errors @ [prefix @ '': Missing required field "Effect"''])
         | Some e \<Rightarrow>
             if \<not> js_truthy (Some e)
             then Inr (errors @ [prefix @ '': Missing required field "Effect"''])
             else if e \<noteq> JStr ''Allow'' \<and> e \<noteq> JStr ''Deny''
             then (case js_to_string e of
                     None \<Rightarrow> Inl TypeError
                   | Some t \<Rightarrow>
                       Inr (errors @ [prefix @ '': Effect must be "Allow" or "Deny", got "'' @ t @ ''"'']))
             else Inr errors)\<close>

definition principal_ignored :: "string \<Rightarrow> string" where
  "principal_ignored prefix =
     prefix @ '': Principal field is not supported by Impossible Cloud and will be ignored''"

definition notprincipal_ignored :: "string \<Rightarrow> string" where
  "notprincipal_ignored prefix =
     prefix @ '': NotPrincipal field is not supported by Impossible Cloud and will be ignored''"

text \<open>\<^verbatim>\<open>if (stmt.F) { validate(stmt.F, ...) }\<close>: the validation runs on a truthy field only.\<close>

definition when_truthy :: "json option \<Rightarrow> (json \<Rightarrow> msgs) \<Rightarrow> msgs \<Rightarrow> msgs" where
  "when_truthy field validate m =
     (case field of
        None \<Rightarrow> m
      | Some v \<Rightarrow> if js_truthy (Some v) then validate v else m)"

text \<open>
  The statement validator. Its checks only append to the two arrays, so an exception in
  the \<^verbatim>\<open>Effect\<close> check discards nothing that could be seen. The source also defines
  \<^verbatim>\<open>validatePrincipal\<close>, which nothing calls: a principal is only tested for truthiness.
\<close>

definition validateStatement ::
  "json \<Rightarrow> nat \<Rightarrow> string list \<Rightarrow> string list \<Rightarrow> js_exception + msgs" where
  \<open>validateStatement stmt idx errs warns =
     (let errors = errs; warnings = warns;
          prefix = ''Statement['' @ js_nat_str idx @ '']''
      in if \<not> js_is_object stmt
         then Inr (errors @ [prefix @ '': Must be an object''], warnings)
         else
           let errors = sid_check prefix (js_get stmt ''Sid'') errors
           in case effect_check prefix (js_get stmt ''Effect'') errors of
                Inl ex \<Rightarrow> Inl ex
              | Inr errors \<Rightarrow>
                  let Principal = js_get stmt ''Principal'';
                      NotPrincipal = js_get stmt ''NotPrincipal'';
                      Action = js_get stmt ''Action'';
                      NotAction = js_get stmt ''NotAction'';
                      Resource = js_get stmt ''Resource'';
                      NotResource = js_get stmt ''NotResource'';
                      Condition = js_get stmt ''Condition'';
                      warnings = (if js_truthy Principal
                                  then warnings @ [principal_ignored prefix]
                                  else warnings);
                      warnings = (if js_truthy NotPrincipal
                                  then warnings @ [notprincipal_ignored prefix]
                                  else warnings);
                      errors = (if \<not> js_truthy Action \<and> \<not> js_truthy NotAction
                                then errors @ [prefix @ '': Missing "Action" or "NotAction"'']
                                else errors);
                      errors = (if js_truthy Action \<and> js_truthy NotAction
                                then errors @ [prefix @ '': Cannot have both "Action" and "NotAction"'']
                                else errors);
                      (errors, warnings) =
                         when_truthy Action
                           (\<lambda>v. validateActions v (prefix @ ''.Action'') errors warnings)
                           (errors, warnings);
                      (errors, warnings) =
                         when_truthy NotAction
                           (\<lambda>v. validateActions v (prefix @ ''.NotAction'') errors warnings)
                           (errors, warnings);
                      errors = (if \<not> js_truthy Resource \<and> \<not> js_truthy NotResource
                                then errors @ [prefix @ '': Missing "Resource" or "NotResource"'']
                                else errors);
                      errors = (if js_truthy Resource \<and> js_truthy NotResource
                                then errors @ [prefix @ '': Cannot have both "Resource" and "NotResource"'']
                                else errors);
                      (errors, warnings) =
                         when_truthy Resource
                           (\<lambda>v. validateResources v (prefix @ ''.Resource'') errors warnings)
                           (errors, warnings);
                      (errors, warnings) =
                         when_truthy NotResource
                           (\<lambda>v. validateResources v (prefix @ ''.NotResource'') errors warnings)
                           (errors, warnings);
                      (errors, warnings) =
                         when_truthy Condition
                           (\<lambda>v. validateCondition v (prefix @ ''.Condition'') errors warnings)
                           (errors, warnings);
                      warnings =
                         fold (\<lambda>key warnings.
                                 if key \<notin> set validStmtFields
                                 then warnings @ [prefix @ '': Unknown field "'' @ key @ ''"'']
                                 else warnings)
                           (js_keys stmt) warnings
                  in Inr (errors, warnings))\<close>

text \<open>\<^verbatim>\<open>policy.Statement.forEach\<close>: an exception in one statement ends the walk.\<close>

fun validateStatements :: "json list \<Rightarrow> nat \<Rightarrow> msgs \<Rightarrow> js_exception + msgs" where
  "validateStatements [] idx m = Inr m"
| "validateStatements (stmt # stmts) idx m =
     (case validateStatement stmt idx (fst m) (snd m) of
        Inl ex \<Rightarrow> Inl ex
      | Inr m' \<Rightarrow> validateStatements stmts (Suc idx) m')"

definition version_check :: "json option \<Rightarrow> msgs \<Rightarrow> msgs" where
  \<open>version_check version m =
     (let errors = fst m; warnings = snd m
      in if \<not> js_truthy version
         then (errors @ [''Missing required field: Version''], warnings)
         else case version of
                Some (JStr v) \<Rightarrow>
                  if v \<noteq> ''2012-10-17'' \<and> v \<noteq> ''2008-10-17''
                  then (errors @ [''Invalid Version: "'' @ v @
                                  ''". Must be "2012-10-17" or "2008-10-17"''], warnings)
                  else if v = ''2008-10-17''
                  then (errors, warnings @ [''Version "2008-10-17" is deprecated. Use "2012-10-17"''])
                  else (errors, warnings)
              | _ \<Rightarrow> (errors @ [''Version must be a string''], warnings))\<close>

definition statement_check :: "json option \<Rightarrow> msgs \<Rightarrow> js_exception + msgs" where
  "statement_check statement m =
     (let errors = fst m; warnings = snd m
      in if \<not> js_truthy statement
         then Inr (errors @ [''Missing required field: Statement''], warnings)
         else case statement of
                Some (JArr stmts) \<Rightarrow>
                  if length stmts = 0
                  then Inr (errors @ [''Statement array cannot be empty''], warnings)
                  else validateStatements stmts 0 (errors, warnings)
              | _ \<Rightarrow> Inr (errors @ [''Statement must be an array''], warnings))"

text \<open>
  \<^verbatim>\<open>validatePolicy\<close> from the value \<^verbatim>\<open>JSON.parse\<close> returned. On \<^verbatim>\<open>null\<close> the first
  check pushes its error and the read of \<^verbatim>\<open>policy.Version\<close> throws. The result is the
  pair of arrays the notification is built from.
\<close>

definition validatePolicy :: "json \<Rightarrow> js_exception + verdict" where
  \<open>validatePolicy policy =
     (let errors = []; warnings = [];
          errors = (if \<not> js_is_object policy
                    then errors @ [''Policy must be a JSON object'']
                    else errors)
      in if policy = JNull then Inl TypeError
         else
           let (errors, warnings) = version_check (js_get policy ''Version'') (errors, warnings)
           in case statement_check (js_get policy ''Statement'') (errors, warnings) of
                Inl ex \<Rightarrow> Inl ex
              | Inr m \<Rightarrow>
                  let errors = fst m; warnings = snd m;
                      warnings =
                         fold (\<lambda>key warnings.
                                 if key \<notin> set validRootFields
                                 then warnings @ [''Unknown root-level field: "'' @ key @ ''"'']
                                 else warnings)
                           (js_keys policy) warnings;
                      Id = js_get policy ''Id'';
                      errors = (if js_truthy Id \<and> (case Id of Some (JStr s) \<Rightarrow> False | _ \<Rightarrow> True)
                                then errors @ [''Id field must be a string'']
                                else errors)
                  in Inr (verdict_of errors warnings))\<close>

section \<open>generatePolicy\<close>

text \<open>
  What the function reads from the page: the values of the five fields and the values of
  the checked boxes, in document order.
\<close>

record form =
  bucketName_field :: string
  policyEffect_field :: string
  resourcePath_field :: string
  checked_boxes :: "string list"
  customActions_field :: string
  condition_field :: string

text \<open>The four notifications after which the function returns without a policy.\<close>

datatype failure =
    BucketNameMissing
  | BucketNameInvalid
  | NoActionSelected
  | InvalidConditionJSON

text \<open>The checked actions, then the non-blank lines of the custom actions, trimmed.\<close>

definition collect_actions :: "form \<Rightarrow> string list" where
  "collect_actions f =
     (let customActions = js_trim (customActions_field f);
          actions = checked_boxes f
      in if customActions \<noteq> []
         then fold (\<lambda>action actions.
                      let trimmedAction = js_trim action
                      in if trimmedAction \<noteq> [] then actions @ [trimmedAction] else actions)
                (js_split CHR 0x0A customActions) actions
         else actions)"

definition needsBucketResource :: "string list \<Rightarrow> bool" where
  "needsBucketResource actions =
     list_ex (\<lambda>a. a = ''s3:ListBucket'' \<or> js_startsWith a ''s3:GetBucket'' \<or>
                   js_startsWith a ''s3:PutBucket'') actions"

definition needsObjectResource :: "string list \<Rightarrow> bool" where
  "needsObjectResource actions = list_ex (\<lambda>a. js_includes a ''Object'') actions"

definition build_resources :: "string \<Rightarrow> string \<Rightarrow> string list \<Rightarrow> string list" where
  "build_resources bucketName resourcePath actions =
     (let resources = [];
          resources = (if needsBucketResource actions
                       then resources @ [''arn:aws:s3:::'' @ bucketName]
                       else resources);
          resources = (if needsObjectResource actions
                       then resources @ [''arn:aws:s3:::'' @ bucketName @ ''/'' @ resourcePath]
                       else resources);
          resources = (if length resources = 0
                       then resources @ [''arn:aws:s3:::'' @ bucketName @ ''/*'']
                       else resources)
      in resources)"

text \<open>\<^verbatim>\<open>xs.length === 1 ? xs[0] : xs\<close>.\<close>

definition one_or_array :: "string list \<Rightarrow> json" where
  "one_or_array xs = (case xs of [x] \<Rightarrow> JStr x | _ \<Rightarrow> JArr (map JStr xs))"

definition build_statement ::
  "nat \<Rightarrow> string \<Rightarrow> string list \<Rightarrow> string list \<Rightarrow> (string \<times> json) list" where
  "build_statement now effect actions resources =
     [(''Sid'', JStr (''GeneratedPolicy'' @ js_nat_str now)),
      (''Effect'', JStr effect),
      (''Action'', one_or_array actions),
      (''Resource'', one_or_array resources)]"

definition build_policy :: "(string \<times> json) list \<Rightarrow> json" where
  "build_policy statement =
     JObj [(''Version'', JStr ''2012-10-17''), (''Statement'', JArr [JObj statement])]"

text \<open>
  \<^verbatim>\<open>generatePolicy\<close>, with the two things it takes from the runtime as parameters:
  \<open>json_parse\<close> is \<^verbatim>\<open>JSON.parse\<close> (\<^const>\<open>None\<close> when it throws) and \<open>now\<close> is the value
  of \<^verbatim>\<open>Date.now()\<close>. The policy returned is the one the function stores in
  \<^verbatim>\<open>currentPolicy\<close> and prints into the output element, from where \<^verbatim>\<open>validatePolicy\<close>
  parses it back.
\<close>

definition generatePolicy :: "(string \<Rightarrow> json option) \<Rightarrow> nat \<Rightarrow> form \<Rightarrow> failure + json" where
  "generatePolicy json_parse now f =
     (let bucketName = js_trim (bucketName_field f)
      in if bucketName = [] then Inl BucketNameMissing
         else if \<not> isValid (validateBucketName bucketName) then Inl BucketNameInvalid
         else
           let effect = policyEffect_field f;
               resourcePath = (if js_trim (resourcePath_field f) = [] then ''*''
                               else js_trim (resourcePath_field f));
               conditionText = js_trim (condition_field f);
               actions = collect_actions f
           in if length actions = 0 then Inl NoActionSelected
              else
                let resources = build_resources bucketName resourcePath actions;
                    statement = build_statement now effect actions resources
                in if conditionText \<noteq> []
                   then (case json_parse conditionText of
                           None \<Rightarrow> Inl InvalidConditionJSON
                         | Some c \<Rightarrow> Inr (build_policy (statement @ [(''Condition'', c)])))
                   else Inr (build_policy statement))"

section \<open>Facts about the string functions\<close>

lemma js_startsWith_set: "js_startsWith s p \<Longrightarrow> set p \<subseteq> set s"
  unfolding js_startsWith_def by (metis set_take_subset)

lemma js_endsWith_set: "js_endsWith s p \<Longrightarrow> set p \<subseteq> set s"
  unfolding js_endsWith_def by (metis set_drop_subset)

lemma js_includes_set: "js_includes s p \<Longrightarrow> set p \<subseteq> set s"
proof (induction s)
  case Nil
  then show ?case by simp
next
  case (Cons c cs)
  then show ?case
    using js_startsWith_set [of "c # cs" p] by auto
qed

lemma js_split_no_sep: "sep \<notin> set s \<Longrightarrow> js_split sep s = [s]"
  by (induction s) auto

lemma lower_digit_not_special:
  "is_lower_digit c \<Longrightarrow> c \<noteq> CHR ''.'' \<and> c \<noteq> CHR ''-'' \<and> c \<noteq> CHR ''_'' \<and> \<not> is_upper c"
  unfolding is_lower_digit_def is_lower_def is_digit_def is_upper_def by auto

lemma all_lower_digit_not_special:
  assumes "list_all is_lower_digit s"
  shows "CHR ''.'' \<notin> set s" and "CHR ''-'' \<notin> set s" and "CHR ''_'' \<notin> set s"
    and "\<not> list_ex is_upper s"
  using assms lower_digit_not_special by (auto simp: list_all_iff list_ex_iff)

lemma js_startsWith_append: "js_startsWith s p \<Longrightarrow> s = p @ drop (length p) s"
  unfolding js_startsWith_def by (metis append_take_drop_id)

lemma js_includes_single: "js_includes s [c] \<longleftrightarrow> c \<in> set s"
  by (induction s) (auto simp: js_startsWith_def)

lemma js_trim_Nil_iff: "js_trim s = [] \<longleftrightarrow> list_all is_space s"
proof
  assume "js_trim s = []"
  then have "\<forall>c \<in> set (dropWhile is_space s). is_space c"
    by (simp add: js_trim_def dropWhile_eq_Nil_conv)
  then have "dropWhile is_space s = []"
    by (metis hd_dropWhile hd_in_set)
  then show "list_all is_space s"
    by (simp add: dropWhile_eq_Nil_conv list_all_iff)
next
  assume "list_all is_space s"
  then have "dropWhile is_space s = []"
    by (simp add: dropWhile_eq_Nil_conv list_all_iff)
  then show "js_trim s = []"
    unfolding js_trim_def by (simp only: rev.simps dropWhile.simps)
qed

section \<open>Claims about validateBucketName\<close>

text \<open>
  C9: every string of 3 to 63 characters, all of them in \<^verbatim>\<open>[a-z0-9]\<close>, is a valid
  bucket name: the verdict has \<^verbatim>\<open>isValid = true\<close> and no error.
\<close>

theorem C9_alnum_bucket_name_valid:
  assumes len: "3 \<le> length s" "length s \<le> 63"
    and chars: "list_all is_lower_digit s"
  shows "validateBucketName s = \<lparr>isValid = True, errors = []\<rparr>"
proof -
  from len have ne: "s \<noteq> []" by auto
  from chars have bucket: "list_all is_bucket_char s"
    by (simp add: list_all_iff is_bucket_char_def)
  from chars ne have first: "is_lower_digit (hd s)" and final: "is_lower_digit (last s)"
    by (simp_all add: list_all_iff)
  note special = all_lower_digit_not_special [OF chars]
  have ip: "\<not> ip_shaped s"
    by (simp add: ip_shaped_def js_split_no_sep [OF special(1)])
  have xn: "\<not> js_startsWith s ''xn--''"
    using js_startsWith_set [of s "''xn--''"] special(2) by auto
  have sfx: "\<not> js_endsWith s ''-s3alias''"
    using js_endsWith_set [of s "''-s3alias''"] special(2) by auto
  have dots: "\<not> js_includes s ''..''" "\<not> js_includes s ''.-''" "\<not> js_includes s ''-.''"
    using js_includes_set [of s "''..''"] js_includes_set [of s "''.-''"]
      js_includes_set [of s "''-.''"] special(1) by auto
  have under: "\<not> js_includes s ''_''"
    using js_includes_set [of s "''_''"] special(3) by auto
  show ?thesis
    unfolding validateBucketName_def Let_def
    using len ne bucket first final ip xn sfx dots under special(4) by simp
qed

theorem C9_witness:
  "validateBucketName ''abc'' = \<lparr>isValid = True, errors = []\<rparr>"
  using C9_alnum_bucket_name_valid [of "''abc''"]
  by (simp add: is_lower_digit_def is_lower_def is_digit_def)

section \<open>Facts about validatePrincipalARN\<close>

text \<open>Each block of checks only appends to the arrays it is given.\<close>

lemma push_if: "(if c then xs @ ys else xs) = xs @ (if c then ys else [])"
  by simp

lemma push_if2: "(if c then xs @ ys else xs @ zs) = xs @ (if c then ys else zs)"
  by simp

lemma keep_if: "(if c then xs else xs @ zs) = xs @ (if c then [] else zs)"
  by simp

lemma iam_checks_acc:
  "iam_checks r a res e w =
     (e @ fst (iam_checks r a res [] []), w @ snd (iam_checks r a res [] []))"
  by (simp add: iam_checks_def Let_def push_if push_if2 keep_if
      split del: if_split cong del: if_weak_cong)

lemma s3_checks_acc: "s3_checks r a w = w @ s3_checks r a []"
  by (simp add: s3_checks_def Let_def push_if push_if2
      split del: if_split cong del: if_weak_cong)

lemma ipcld_checks_acc: "ipcld_checks parts e = e @ ipcld_checks parts []"
  by (simp add: ipcld_checks_def Let_def push_if push_if2
      split del: if_split cong del: if_weak_cong)

lemma aws_checks_acc:
  "aws_checks parts e w = (e @ fst (aws_checks parts [] []), w @ snd (aws_checks parts [] []))"
proof -
  define r where "r = js_nth parts 3"
  define a where "a = js_nth parts 4"
  define res where "res = js_join '':'' (drop 5 parts)"
  define d where "d = iam_checks r a res [] []"
  define d3 where "d3 = s3_checks r a []"
  have iam: "iam_checks r a res e' w' = (e' @ fst d, w' @ snd d)" for e' w'
    unfolding d_def by (rule iam_checks_acc)
  have s3: "s3_checks r a w' = w' @ d3" for w'
    unfolding d3_def by (rule s3_checks_acc)
  show ?thesis
    unfolding aws_checks_def Let_def split_def r_def [symmetric] a_def [symmetric]
      res_def [symmetric]
    by (simp add: iam s3)
qed

lemma arn_checks_acc:
  "arn_checks p e w = (e @ fst (arn_checks p [] []), w @ snd (arn_checks p [] []))"
proof -
  define parts where "parts = js_split CHR '':'' p"
  define d where "d = aws_checks parts [] []"
  define di where "di = ipcld_checks parts []"
  have aws: "aws_checks parts e' w' = (e' @ fst d, w' @ snd d)" for e' w'
    unfolding d_def by (rule aws_checks_acc)
  have ipcld: "ipcld_checks parts e' = e' @ di" for e'
    unfolding di_def by (rule ipcld_checks_acc)
  show ?thesis
    unfolding arn_checks_def Let_def parts_def [symmetric]
    by (simp add: aws ipcld)
qed

lemma service_like_has_dot: "service_like p \<Longrightarrow> js_includes p ''.''"
  unfolding service_like_def js_includes_single
  using js_includes_set [of p "''.amazonaws.com''"] js_includes_set [of p "''.amazon.com''"]
  by auto

lemma arn_prefix_facts:
  assumes "js_startsWith p ''arn:''"
  shows "p \<noteq> ''*''" and "p \<noteq> []" and "js_trim p \<noteq> []" and "\<not> canonical_id p"
proof -
  from assms obtain rest where p: "p = ''arn:'' @ rest"
    using js_startsWith_append by blast
  then show "p \<noteq> ''*''" and "p \<noteq> []" by auto
  from p have "CHR ''a'' \<in> set p" and colon: "CHR '':'' \<in> set p"
    by (metis in_set_conv_decomp append_Cons append_Nil)+
  moreover have "\<not> is_space CHR ''a''" by (simp add: is_space_def)
  ultimately show "js_trim p \<noteq> []"
    by (auto simp: js_trim_Nil_iff list_all_iff)
  have "\<not> is_hex_lower CHR '':''" by (simp add: is_hex_lower_def is_digit_def)
  with colon show "\<not> canonical_id p"
    by (auto simp: canonical_id_def list_all_iff)
qed

text \<open>
  The part of the rule for other strings that the function implements: a string without
  a dot that no earlier branch takes is accepted with the account warning when it is
  twelve digits, and rejected with the one generic error otherwise.
\<close>

lemma principal_without_dot:
  assumes "p \<noteq> ''*''" "js_trim p \<noteq> []" "\<not> canonical_id p" "\<not> service_like p"
    "\<not> js_startsWith p ''arn:''" "\<not> js_includes p ''.''"
  shows "validatePrincipalARN p =
     (if twelve_digits p
      then \<lparr>isValid = True, errors = [], warnings = [account_warning]\<rparr>
      else \<lparr>isValid = False, errors = [principal_error], warnings = []\<rparr>)"
proof -
  from assms(2) have "p \<noteq> []"
    by (auto simp: js_trim_Nil_iff)
  with assms show ?thesis
    by (simp add: validatePrincipalARN_def Let_def account_checks_def verdict_of_def)
qed

section \<open>Claims about validatePrincipalARN\<close>

text \<open>
  C2: a non-empty string that is not \<^verbatim>\<open>*\<close>, not a canonical id, not a service principal
  and does not start with \<^verbatim>\<open>arn:\<close> should be valid with one warning when it is twelve
  digits, and invalid with the one generic error otherwise. The function reaches the two
  verdicts only under \<^verbatim>\<open>!principal.includes('.')\<close>: the string
  \<^verbatim>\<open>service.example.com\<close>, which the README lists among the invalid principals,
  satisfies every condition of the rule, is not twelve digits, and is returned as valid
  with no error and no warning.
\<close>

theorem C2_dotted_principal_is_accepted:
  "''service.example.com'' \<noteq> [] \<and> ''service.example.com'' \<noteq> ''*'' \<and>
   \<not> canonical_id ''service.example.com'' \<and> \<not> service_like ''service.example.com'' \<and>
   \<not> js_startsWith ''service.example.com'' ''arn:'' \<and>
   \<not> twelve_digits ''service.example.com'' \<and>
   validatePrincipalARN ''service.example.com'' = \<lparr>isValid = True, errors = [], warnings = []\<rparr>"
  by code_simp

text \<open>
  C3, as stated: the verdict is that of the first branch that applies, alone. It fails
  for \<^verbatim>\<open>arn:x.amazonaws.com\<close>: the service-principal branch pushes its format error,
  does not return, and the ARN branch adds its own error.
\<close>

theorem C3_counterexample:
  "errors (validatePrincipalARN ''arn:x.amazonaws.com'') =
     [service_error,
      ''Invalid ARN format. Expected: arn:aws:service:region:account-id:resource or arn:ipcld:iam::CanonicalID:resource''] \<and>
   errors (spec_single_branch ''arn:x.amazonaws.com'') = [service_error]"
  by code_simp

text \<open>
  C3, amended: the branches are tried in the fixed order and the first that applies
  decides the verdict alone, except that a string with \<^verbatim>\<open>.amazonaws.com\<close> or
  \<^verbatim>\<open>.amazon.com\<close> of the wrong shape keeps its service-principal error and, when it
  starts with \<^verbatim>\<open>arn:\<close>, is then checked by the ARN branch as well, whose errors and
  warnings follow that error. Nothing is said here about a string with a dot that is
  neither a service principal nor an ARN.
\<close>

theorem C3_branches_in_order:
  "(\<not> (service_like p \<and> \<not> service_principal_shape p \<and> js_startsWith p ''arn:'') \<and>
    \<not> (js_includes p ''.'' \<and> \<not> service_like p \<and> \<not> js_startsWith p ''arn:'')
      \<longrightarrow> validatePrincipalARN p = spec_single_branch p) \<and>
   (service_like p \<and> \<not> service_principal_shape p \<and> js_startsWith p ''arn:''
      \<longrightarrow> validatePrincipalARN p =
            verdict_of (service_error # fst (arn_checks p [] [])) (snd (arn_checks p [] [])))"
proof (intro conjI impI)
  assume "\<not> (service_like p \<and> \<not> service_principal_shape p \<and> js_startsWith p ''arn:'') \<and>
    \<not> (js_includes p ''.'' \<and> \<not> service_like p \<and> \<not> js_startsWith p ''arn:'')"
  then show "validatePrincipalARN p = spec_single_branch p"
    using service_like_has_dot [of p]
    by (auto simp: validatePrincipalARN_def spec_single_branch_def Let_def split_def
        verdict_of_def account_checks_def)
next
  assume h: "service_like p \<and> \<not> service_principal_shape p \<and> js_startsWith p ''arn:''"
  note arn = arn_prefix_facts [of p]
  have acc: "arn_checks p [service_error] [] =
      (service_error # fst (arn_checks p [] []), snd (arn_checks p [] []))"
    using arn_checks_acc [of p "[service_error]" "[]"] by simp
  show "validatePrincipalARN p =
      verdict_of (service_error # fst (arn_checks p [] [])) (snd (arn_checks p [] []))"
    using h arn by (simp add: validatePrincipalARN_def Let_def acc)
qed

theorem C3_witness:
  "validatePrincipalARN ''123456789012'' = spec_single_branch ''123456789012'' \<and>
   validatePrincipalARN ''arn:x.amazonaws.com'' =
     verdict_of (service_error # fst (arn_checks ''arn:x.amazonaws.com'' [] []))
       (snd (arn_checks ''arn:x.amazonaws.com'' [] []))"
proof -
  have a: "\<not> service_like ''123456789012''" "\<not> js_includes ''123456789012'' ''.''"
    by code_simp+
  have b: "service_like ''arn:x.amazonaws.com''"
    "\<not> service_principal_shape ''arn:x.amazonaws.com''"
    "js_startsWith ''arn:x.amazonaws.com'' ''arn:''"
    by code_simp+
  show ?thesis
    using C3_branches_in_order [of "''123456789012''"]
      C3_branches_in_order [of "''arn:x.amazonaws.com''"] a b
    by blast
qed

text \<open>
  C10: on every return path of \<^verbatim>\<open>validatePrincipalARN\<close>, \<^verbatim>\<open>isValid\<close> is true exactly
  when the list of errors is empty; the warnings play no part.
\<close>

theorem C10_isValid_iff_no_errors:
  "isValid (validatePrincipalARN p) \<longleftrightarrow> errors (validatePrincipalARN p) = []"
  by (simp add: validatePrincipalARN_def Let_def verdict_of_def split: prod.splits)

theorem C10_witness:
  "isValid (validatePrincipalARN ''arn:aws:iam::123:user/alice'') \<longleftrightarrow>
   errors (validatePrincipalARN ''arn:aws:iam::123:user/alice'') = []"
  using C10_isValid_iff_no_errors [of "''arn:aws:iam::123:user/alice''"] .

section \<open>Facts about generatePolicy\<close>

lemma build_resources_cases:
  "build_resources b p as =
     (if needsBucketResource as
      then (if needsObjectResource as
            then [''arn:aws:s3:::'' @ b, ''arn:aws:s3:::'' @ b @ ''/'' @ p]
            else [''arn:aws:s3:::'' @ b])
      else (if needsObjectResource as
            then [''arn:aws:s3:::'' @ b @ ''/'' @ p]
            else [''arn:aws:s3:::'' @ b @ ''/*'']))"
  by (simp add: build_resources_def Let_def)

lemma generatePolicy_Inr:
  assumes "generatePolicy parse now f = Inr doc"
  shows "\<exists>cond. doc = build_policy
           (build_statement now (policyEffect_field f) (collect_actions f)
              (build_resources (js_trim (bucketName_field f))
                 (if js_trim (resourcePath_field f) = [] then ''*''
                  else js_trim (resourcePath_field f))
                 (collect_actions f)) @ cond) \<and>
         (if js_trim (condition_field f) = [] then cond = []
          else \<exists>c. parse (js_trim (condition_field f)) = Some c \<and> cond = [(''Condition'', c)])"
  using assms
  by (auto simp: generatePolicy_def Let_def split: if_splits option.splits)

lemma generatePolicy_gate:
  assumes "generatePolicy parse now f = Inr doc"
  shows "js_trim (bucketName_field f) \<noteq> []"
    and "isValid (validateBucketName (js_trim (bucketName_field f)))"
    and "collect_actions f \<noteq> []"
  using assms
  by (auto simp: generatePolicy_def Let_def split: if_splits option.splits)

lemma both_needed:
  assumes "\<exists>stmt R. P stmt \<and> Q stmt R \<and> A R \<and> B R \<and> C R \<and> (nb \<and> ob \<longrightarrow> D R)"
    and nb and ob
  shows "\<exists>stmt R. P stmt \<and> Q stmt R \<and> D R"
  using assms by blast

section \<open>Claims about generatePolicy\<close>

text \<open>
  C4: in the policy of a successful call, the statement's \<^verbatim>\<open>Resource\<close> holds the bucket
  ARN exactly when some action is \<^verbatim>\<open>s3:ListBucket\<close> or starts with \<^verbatim>\<open>s3:GetBucket\<close> or
  \<^verbatim>\<open>s3:PutBucket\<close>, and the object ARN with the resource path exactly when some action
  contains \<^verbatim>\<open>Object\<close>; when neither holds it is the single object ARN with path \<^verbatim>\<open>*\<close>
  (which is the object ARN of the resource path when that path is \<^verbatim>\<open>*\<close> itself); when
  both hold it is the array of the bucket ARN followed by the object ARN.
\<close>

theorem C4_resource_forms:
  fixes f :: form
  defines "bucket \<equiv> js_trim (bucketName_field f)"
    and "path \<equiv> (if js_trim (resourcePath_field f) = [] then ''*''
                  else js_trim (resourcePath_field f))"
    and "nb \<equiv> (\<exists>a \<in> set (collect_actions f).
                  a = ''s3:ListBucket'' \<or> js_startsWith a ''s3:GetBucket'' \<or>
                  js_startsWith a ''s3:PutBucket'')"
    and "ob \<equiv> (\<exists>a \<in> set (collect_actions f). js_includes a ''Object'')"
  assumes gen: "generatePolicy parse now f = Inr doc"
  shows "\<exists>stmt R. doc = build_policy stmt \<and> map_of stmt ''Resource'' = Some R \<and>
     (JStr (''arn:aws:s3:::'' @ bucket) \<in> set (js_as_list R) \<longleftrightarrow> nb) \<and>
     (JStr (''arn:aws:s3:::'' @ bucket @ ''/'' @ path) \<in> set (js_as_list R) \<longleftrightarrow>
        ob \<or> (\<not> nb \<and> path = ''*'')) \<and>
     (\<not> nb \<and> \<not> ob \<longrightarrow> R = JStr (''arn:aws:s3:::'' @ bucket @ ''/*'')) \<and>
     (nb \<and> ob \<longrightarrow> R = JArr [JStr (''arn:aws:s3:::'' @ bucket),
                            JStr (''arn:aws:s3:::'' @ bucket @ ''/'' @ path)])"
proof -
  let ?actions = "collect_actions f"
  from generatePolicy_Inr [OF gen] obtain cond where
    doc: "doc = build_policy (build_statement now (policyEffect_field f) ?actions
                 (build_resources bucket path ?actions) @ cond)"
    unfolding bucket_def path_def by blast
  have nb: "needsBucketResource ?actions = nb"
    by (simp add: needsBucketResource_def nb_def list_ex_iff)
  have ob: "needsObjectResource ?actions = ob"
    by (simp add: needsObjectResource_def ob_def list_ex_iff)
  let ?R = "one_or_array (build_resources bucket path ?actions)"
  have "map_of (build_statement now (policyEffect_field f) ?actions
                 (build_resources bucket path ?actions) @ cond) ''Resource'' = Some ?R"
    by (simp add: build_statement_def)
  moreover have "(JStr (''arn:aws:s3:::'' @ bucket) \<in> set (js_as_list ?R) \<longleftrightarrow> nb) \<and>
     (JStr (''arn:aws:s3:::'' @ bucket @ ''/'' @ path) \<in> set (js_as_list ?R) \<longleftrightarrow>
        ob \<or> (\<not> nb \<and> path = ''*'')) \<and>
     (\<not> nb \<and> \<not> ob \<longrightarrow> ?R = JStr (''arn:aws:s3:::'' @ bucket @ ''/*'')) \<and>
     (nb \<and> ob \<longrightarrow> ?R = JArr [JStr (''arn:aws:s3:::'' @ bucket),
                            JStr (''arn:aws:s3:::'' @ bucket @ ''/'' @ path)])"
    by (auto simp: build_resources_cases nb ob one_or_array_def)
  ultimately show ?thesis using doc by blast
qed

theorem C4_witness:
  "\<exists>stmt. generatePolicy (\<lambda>s. None) 1
       \<lparr>bucketName_field = ''test-bucket'', policyEffect_field = ''Allow'',
        resourcePath_field = ''logs/*'', checked_boxes = [''s3:ListBucket'', ''s3:GetObject''],
        customActions_field = '''', condition_field = ''''\<rparr> = Inr (build_policy stmt) \<and>
     map_of stmt ''Resource'' =
       Some (JArr [JStr ''arn:aws:s3:::test-bucket'', JStr ''arn:aws:s3:::test-bucket/logs/*''])"
proof -
  let ?f = "\<lparr>bucketName_field = ''test-bucket'', policyEffect_field = ''Allow'',
        resourcePath_field = ''logs/*'', checked_boxes = [''s3:ListBucket'', ''s3:GetObject''],
        customActions_field = '''', condition_field = ''''\<rparr>"
  have gen: "generatePolicy (\<lambda>s. None) 1 ?f =
      Inr (build_policy
        [(''Sid'', JStr ''GeneratedPolicy1''), (''Effect'', JStr ''Allow''),
         (''Action'', JArr [JStr ''s3:ListBucket'', JStr ''s3:GetObject'']),
         (''Resource'', JArr [JStr ''arn:aws:s3:::test-bucket'',
                              JStr ''arn:aws:s3:::test-bucket/logs/*''])])"
    by code_simp
  have nb: "\<exists>a \<in> set (collect_actions ?f).
              a = ''s3:ListBucket'' \<or> js_startsWith a ''s3:GetBucket'' \<or>
              js_startsWith a ''s3:PutBucket''"
    by code_simp
  have ob: "\<exists>a \<in> set (collect_actions ?f). js_includes a ''Object''"
    by code_simp
  have bucket: "js_trim (bucketName_field ?f) = ''test-bucket''"
    by code_simp
  have path: "(if js_trim (resourcePath_field ?f) = [] then ''*''
               else js_trim (resourcePath_field ?f)) = ''logs/*''"
    by code_simp
  have "\<exists>stmt R.
          build_policy
            [(''Sid'', JStr ''GeneratedPolicy1''), (''Effect'', JStr ''Allow''),
             (''Action'', JArr [JStr ''s3:ListBucket'', JStr ''s3:GetObject'']),
             (''Resource'', JArr [JStr ''arn:aws:s3:::test-bucket'',
                                  JStr ''arn:aws:s3:::test-bucket/logs/*''])] = build_policy stmt \<and>
          map_of stmt ''Resource'' = Some R \<and>
          R = JArr [JStr (''arn:aws:s3:::'' @ js_trim (bucketName_field ?f)),
                    JStr (''arn:aws:s3:::'' @ js_trim (bucketName_field ?f) @ ''/'' @
                          (if js_trim (resourcePath_field ?f) = [] then ''*''
                           else js_trim (resourcePath_field ?f)))]"
    by (rule both_needed [OF C4_resource_forms [OF gen] nb ob])
  then show ?thesis
    unfolding bucket path gen by auto
qed

text \<open>
  C5, as stated: the function fails exactly when there is no action or the condition text
  does not parse. It also fails, before it looks at the actions, when the bucket name is
  empty or \<^verbatim>\<open>validateBucketName\<close> rejects it: here the name is \<^verbatim>\<open>AB\<close>, an action is
  checked and the condition is blank.
\<close>

theorem C5_counterexample:
  "generatePolicy (\<lambda>s. None) 1
     \<lparr>bucketName_field = ''AB'', policyEffect_field = ''Allow'', resourcePath_field = '''',
      checked_boxes = [''s3:GetObject''], customActions_field = '''', condition_field = ''''\<rparr>
     = Inl BucketNameInvalid \<and>
   collect_actions
     \<lparr>bucketName_field = ''AB'', policyEffect_field = ''Allow'', resourcePath_field = '''',
      checked_boxes = [''s3:GetObject''], customActions_field = '''', condition_field = ''''\<rparr>
     = [''s3:GetObject''] \<and>
   js_trim (condition_field
     \<lparr>bucketName_field = ''AB'', policyEffect_field = ''Allow'', resourcePath_field = '''',
      checked_boxes = [''s3:GetObject''], customActions_field = '''', condition_field = ''''\<rparr>)
     = []"
  by code_simp

text \<open>
  C5, amended: the function returns a failure and no policy exactly when the trimmed
  bucket name is empty or invalid, or no action is collected, or the trimmed condition
  text is not blank and does not parse. Each of the four failures has its own cause, in
  this order: the bucket name is missing; it is present and invalid; it is valid and no
  action is collected; it is valid, an action is collected and the condition text does
  not parse. In every other case the function returns a policy of version
  \<^verbatim>\<open>2012-10-17\<close> with one statement whose keys are \<^verbatim>\<open>Sid\<close>, \<^verbatim>\<open>Effect\<close>, \<^verbatim>\<open>Action\<close>,
  \<^verbatim>\<open>Resource\<close> and, only when the condition text is not blank, \<^verbatim>\<open>Condition\<close>.
\<close>

theorem C5_failures:
  "(generatePolicy parse now f = Inl BucketNameMissing \<longleftrightarrow>
      js_trim (bucketName_field f) = []) \<and>
   (generatePolicy parse now f = Inl BucketNameInvalid \<longleftrightarrow>
      js_trim (bucketName_field f) \<noteq> [] \<and>
      \<not> isValid (validateBucketName (js_trim (bucketName_field f)))) \<and>
   (generatePolicy parse now f = Inl NoActionSelected \<longleftrightarrow>
      js_trim (bucketName_field f) \<noteq> [] \<and>
      isValid (validateBucketName (js_trim (bucketName_field f))) \<and>
      collect_actions f = []) \<and>
   (generatePolicy parse now f = Inl InvalidConditionJSON \<longleftrightarrow>
      js_trim (bucketName_field f) \<noteq> [] \<and>
      isValid (validateBucketName (js_trim (bucketName_field f))) \<and>
      collect_actions f \<noteq> [] \<and>
      js_trim (condition_field f) \<noteq> [] \<and> parse (js_trim (condition_field f)) = None) \<and>
   ((\<exists>e. generatePolicy parse now f = Inl e) \<longleftrightarrow>
      (js_trim (bucketName_field f) = [] \<or>
       \<not> isValid (validateBucketName (js_trim (bucketName_field f))) \<or>
       collect_actions f = [] \<or>
       (js_trim (condition_field f) \<noteq> [] \<and> parse (js_trim (condition_field f)) = None))) \<and>
   (\<forall>doc. generatePolicy parse now f = Inr doc \<longrightarrow>
      (\<exists>stmt. doc = JObj [(''Version'', JStr ''2012-10-17''), (''Statement'', JArr [JObj stmt])] \<and>
         map fst stmt =
           [''Sid'', ''Effect'', ''Action'', ''Resource''] @
           (if js_trim (condition_field f) = [] then [] else [''Condition''])))"
proof (intro conjI)
  show "generatePolicy parse now f = Inl BucketNameMissing \<longleftrightarrow>
      js_trim (bucketName_field f) = []"
    by (auto simp: generatePolicy_def Let_def split: if_splits option.splits)
  show "generatePolicy parse now f = Inl BucketNameInvalid \<longleftrightarrow>
      js_trim (bucketName_field f) \<noteq> [] \<and>
      \<not> isValid (validateBucketName (js_trim (bucketName_field f)))"
    by (auto simp: generatePolicy_def Let_def split: if_splits option.splits)
  show "generatePolicy parse now f = Inl NoActionSelected \<longleftrightarrow>
      js_trim (bucketName_field f) \<noteq> [] \<and>
      isValid (validateBucketName (js_trim (bucketName_field f))) \<and>
      collect_actions f = []"
    by (auto simp: generatePolicy_def Let_def split: if_splits option.splits)
  show "generatePolicy parse now f = Inl InvalidConditionJSON \<longleftrightarrow>
      js_trim (bucketName_field f) \<noteq> [] \<and>
      isValid (validateBucketName (js_trim (bucketName_field f))) \<and>
      collect_actions f \<noteq> [] \<and>
      js_trim (condition_field f) \<noteq> [] \<and> parse (js_trim (condition_field f)) = None"
    by (auto simp: generatePolicy_def Let_def split: if_splits option.splits)
  show "(\<exists>e. generatePolicy parse now f = Inl e) \<longleftrightarrow>
      (js_trim (bucketName_field f) = [] \<or>
       \<not> isValid (validateBucketName (js_trim (bucketName_field f))) \<or>
       collect_actions f = [] \<or>
       (js_trim (condition_field f) \<noteq> [] \<and> parse (js_trim (condition_field f)) = None))"
    by (auto simp: generatePolicy_def Let_def split: if_splits option.splits)
  show "\<forall>doc. generatePolicy parse now f = Inr doc \<longrightarrow>
      (\<exists>stmt. doc = JObj [(''Version'', JStr ''2012-10-17''), (''Statement'', JArr [JObj stmt])] \<and>
         map fst stmt =
           [''Sid'', ''Effect'', ''Action'', ''Resource''] @
           (if js_trim (condition_field f) = [] then [] else [''Condition'']))"
    by (auto simp: generatePolicy_def Let_def build_policy_def build_statement_def
        split: if_splits option.splits)
qed

theorem C5_witness:
  "generatePolicy (\<lambda>s. None) 1
       \<lparr>bucketName_field = ''test-bucket'', policyEffect_field = ''Allow'',
        resourcePath_field = [], checked_boxes = [''s3:GetObject''],
        customActions_field = [], condition_field = ''{bad json''\<rparr> = Inl InvalidConditionJSON \<and>
   generatePolicy (\<lambda>s. None) 1
       \<lparr>bucketName_field = ''test-bucket'', policyEffect_field = ''Allow'',
        resourcePath_field = [], checked_boxes = [],
        customActions_field = '' '', condition_field = ''{bad json''\<rparr> = Inl NoActionSelected \<and>
   generatePolicy (\<lambda>s. None) 1
       \<lparr>bucketName_field = ''AB'', policyEffect_field = ''Allow'',
        resourcePath_field = [], checked_boxes = [],
        customActions_field = [], condition_field = ''{bad json''\<rparr> = Inl BucketNameInvalid \<and>
   generatePolicy (\<lambda>s. None) 1
       \<lparr>bucketName_field = '' '', policyEffect_field = ''Allow'',
        resourcePath_field = [], checked_boxes = [],
        customActions_field = [], condition_field = ''{bad json''\<rparr> = Inl BucketNameMissing \<and>
   (\<exists>stmt. generatePolicy (\<lambda>s. None) 1
       \<lparr>bucketName_field = ''test-bucket'', policyEffect_field = ''Allow'',
        resourcePath_field = [], checked_boxes = [''s3:GetObject''],
        customActions_field = [], condition_field = '' ''\<rparr> =
         Inr (JObj [(''Version'', JStr ''2012-10-17''), (''Statement'', JArr [JObj stmt])]) \<and>
      map fst stmt = [''Sid'', ''Effect'', ''Action'', ''Resource''])"
proof -
  let ?p = "\<lambda>s :: string. None :: json option"
  let ?bad = "\<lparr>bucketName_field = ''test-bucket'', policyEffect_field = ''Allow'',
        resourcePath_field = [], checked_boxes = [''s3:GetObject''],
        customActions_field = [], condition_field = ''{bad json''\<rparr>"
  let ?none = "\<lparr>bucketName_field = ''test-bucket'', policyEffect_field = ''Allow'',
        resourcePath_field = [], checked_boxes = [],
        customActions_field = '' '', condition_field = ''{bad json''\<rparr>"
  let ?invalid = "\<lparr>bucketName_field = ''AB'', policyEffect_field = ''Allow'',
        resourcePath_field = [], checked_boxes = [],
        customActions_field = [], condition_field = ''{bad json''\<rparr>"
  let ?missing = "\<lparr>bucketName_field = '' '', policyEffect_field = ''Allow'',
        resourcePath_field = [], checked_boxes = [],
        customActions_field = [], condition_field = ''{bad json''\<rparr>"
  let ?blank = "\<lparr>bucketName_field = ''test-bucket'', policyEffect_field = ''Allow'',
        resourcePath_field = [], checked_boxes = [''s3:GetObject''],
        customActions_field = [], condition_field = '' ''\<rparr>"
  have bad: "js_trim (bucketName_field ?bad) \<noteq> [] \<and>
      isValid (validateBucketName (js_trim (bucketName_field ?bad))) \<and>
      collect_actions ?bad \<noteq> [] \<and>
      js_trim (condition_field ?bad) \<noteq> [] \<and> ?p (js_trim (condition_field ?bad)) = None"
    by code_simp
  have none: "js_trim (bucketName_field ?none) \<noteq> [] \<and>
      isValid (validateBucketName (js_trim (bucketName_field ?none))) \<and>
      collect_actions ?none = []"
    by code_simp
  have invalid: "js_trim (bucketName_field ?invalid) \<noteq> [] \<and>
      \<not> isValid (validateBucketName (js_trim (bucketName_field ?invalid)))"
    by code_simp
  have missing: "js_trim (bucketName_field ?missing) = []"
    by code_simp
  have blank: "js_trim (condition_field ?blank) = []"
    by code_simp
  have gen: "generatePolicy ?p 1 ?blank =
      Inr (build_policy
        [(''Sid'', JStr ''GeneratedPolicy1''), (''Effect'', JStr ''Allow''),
         (''Action'', JStr ''s3:GetObject''),
         (''Resource'', JStr ''arn:aws:s3:::test-bucket/*'')])"
    by code_simp
  note t = C5_failures [of ?p 1]
  have 1: "generatePolicy ?p 1 ?bad = Inl InvalidConditionJSON"
    using t [of ?bad, THEN conjunct2, THEN conjunct2, THEN conjunct2, THEN conjunct1] bad
    by (rule iffD2)
  have 2: "generatePolicy ?p 1 ?none = Inl NoActionSelected"
    using t [of ?none, THEN conjunct2, THEN conjunct2, THEN conjunct1] none
    by (rule iffD2)
  have 3: "generatePolicy ?p 1 ?invalid = Inl BucketNameInvalid"
    using t [of ?invalid, THEN conjunct2, THEN conjunct1] invalid
    by (rule iffD2)
  have 4: "generatePolicy ?p 1 ?missing = Inl BucketNameMissing"
    using t [of ?missing, THEN conjunct1] missing
    by (rule iffD2)
  have 5: "\<exists>stmt. generatePolicy ?p 1 ?blank =
         Inr (JObj [(''Version'', JStr ''2012-10-17''), (''Statement'', JArr [JObj stmt])]) \<and>
      map fst stmt = [''Sid'', ''Effect'', ''Action'', ''Resource'']"
    using t [of ?blank] gen blank by auto
  from 1 2 3 4 5 show ?thesis
    by (intro conjI)
qed

text \<open>
  C6, as stated: two calls on the same field values return the same policy, \<^verbatim>\<open>Sid\<close>
  included. The \<^verbatim>\<open>Sid\<close> is \<^verbatim>\<open>'GeneratedPolicy' + Date.now()\<close>: the same fields at clock
  values 1 and 2 give two policies.
\<close>

theorem C6_counterexample:
  "generatePolicy (\<lambda>s. None) 1
     \<lparr>bucketName_field = ''test-bucket'', policyEffect_field = ''Allow'',
      resourcePath_field = '''', checked_boxes = [''s3:GetObject''],
      customActions_field = '''', condition_field = ''''\<rparr> =
     Inr (build_policy
        [(''Sid'', JStr ''GeneratedPolicy1''), (''Effect'', JStr ''Allow''),
         (''Action'', JStr ''s3:GetObject''),
         (''Resource'', JStr ''arn:aws:s3:::test-bucket/*'')]) \<and>
   generatePolicy (\<lambda>s. None) 2
     \<lparr>bucketName_field = ''test-bucket'', policyEffect_field = ''Allow'',
      resourcePath_field = '''', checked_boxes = [''s3:GetObject''],
      customActions_field = '''', condition_field = ''''\<rparr> =
     Inr (build_policy
        [(''Sid'', JStr ''GeneratedPolicy2''), (''Effect'', JStr ''Allow''),
         (''Action'', JStr ''s3:GetObject''),
         (''Resource'', JStr ''arn:aws:s3:::test-bucket/*'')])"
  by code_simp

text \<open>
  C6, amended: the outcome is a function of the field values, of what \<^verbatim>\<open>JSON.parse\<close>
  returns and of the clock. Two calls on the same field values fail alike or both return a
  policy, and the two policies differ at most in the \<^verbatim>\<open>Sid\<close>, which is
  \<^verbatim>\<open>GeneratedPolicy\<close> followed by the clock value of the call; at equal clock values the
  two policies are equal. The validators take nothing but their argument.
\<close>

theorem C6_same_up_to_sid:
  "(generatePolicy parse now1 f = Inl e \<longleftrightarrow> generatePolicy parse now2 f = Inl e) \<and>
   (generatePolicy parse now1 f = Inr d1 \<and> generatePolicy parse now2 f = Inr d2 \<longrightarrow>
      (\<exists>rest. d1 = build_policy ((''Sid'', JStr (''GeneratedPolicy'' @ js_nat_str now1)) # rest) \<and>
              d2 = build_policy ((''Sid'', JStr (''GeneratedPolicy'' @ js_nat_str now2)) # rest))) \<and>
   (now1 = now2 \<longrightarrow> generatePolicy parse now1 f = generatePolicy parse now2 f)"
  by (auto simp: generatePolicy_def Let_def build_statement_def
      split: if_splits option.splits)

theorem C6_witness:
  "\<exists>rest.
     generatePolicy (\<lambda>s. None) 1
       \<lparr>bucketName_field = ''test-bucket'', policyEffect_field = ''Allow'',
        resourcePath_field = '''', checked_boxes = [''s3:GetObject''],
        customActions_field = '''', condition_field = ''''\<rparr> =
       Inr (build_policy ((''Sid'', JStr (''GeneratedPolicy'' @ js_nat_str 1)) # rest)) \<and>
     generatePolicy (\<lambda>s. None) 2
       \<lparr>bucketName_field = ''test-bucket'', policyEffect_field = ''Allow'',
        resourcePath_field = '''', checked_boxes = [''s3:GetObject''],
        customActions_field = '''', condition_field = ''''\<rparr> =
       Inr (build_policy ((''Sid'', JStr (''GeneratedPolicy'' @ js_nat_str 2)) # rest))"
proof -
  let ?f = "\<lparr>bucketName_field = ''test-bucket'', policyEffect_field = ''Allow'',
        resourcePath_field = '''', checked_boxes = [''s3:GetObject''],
        customActions_field = '''', condition_field = ''''\<rparr>"
  let ?d1 = "build_policy
          [(''Sid'', JStr ''GeneratedPolicy1''), (''Effect'', JStr ''Allow''),
           (''Action'', JStr ''s3:GetObject''),
           (''Resource'', JStr ''arn:aws:s3:::test-bucket/*'')]"
  let ?d2 = "build_policy
          [(''Sid'', JStr ''GeneratedPolicy2''), (''Effect'', JStr ''Allow''),
           (''Action'', JStr ''s3:GetObject''),
           (''Resource'', JStr ''arn:aws:s3:::test-bucket/*'')]"
  have d: "generatePolicy (\<lambda>s. None) 1 ?f = Inr ?d1 \<and>
           generatePolicy (\<lambda>s. None) 2 ?f = Inr ?d2"
    by code_simp
  have "generatePolicy (\<lambda>s. None) 1 ?f = Inr ?d1 \<and>
        generatePolicy (\<lambda>s. None) 2 ?f = Inr ?d2 \<longrightarrow>
        (\<exists>rest. ?d1 = build_policy ((''Sid'', JStr (''GeneratedPolicy'' @ js_nat_str 1)) # rest) \<and>
                ?d2 = build_policy ((''Sid'', JStr (''GeneratedPolicy'' @ js_nat_str 2)) # rest))"
    by (rule C6_same_up_to_sid [of "\<lambda>s. None" 1 ?f BucketNameMissing 2 ?d1 ?d2,
          THEN conjunct2, THEN conjunct1])
  then have "\<exists>rest. ?d1 = build_policy ((''Sid'', JStr (''GeneratedPolicy'' @ js_nat_str 1)) # rest) \<and>
                ?d2 = build_policy ((''Sid'', JStr (''GeneratedPolicy'' @ js_nat_str 2)) # rest)"
    using d by (rule mp)
  then show ?thesis
    using d by (elim exE conjE, intro exI [where x = rest for rest]) simp
qed

section \<open>Facts about the policy validators\<close>

text \<open>Every validator only appends to the two arrays it is given.\<close>

lemma forEach_from_acc:
  assumes f: "\<And>x i m. f x i m = (fst m @ fst (f x i ([], [])), snd m @ snd (f x i ([], [])))"
  shows "forEach_from i f xs m =
     (fst m @ fst (forEach_from i f xs ([], [])), snd m @ snd (forEach_from i f xs ([], [])))"
proof (induction xs arbitrary: i m)
  case Nil
  show ?case by simp
next
  case (Cons x xs)
  define d where "d = f x i ([], [])"
  define r where "r = forEach_from (Suc i) f xs ([], [])"
  have step: "f x i m = (fst m @ fst d, snd m @ snd d)"
    unfolding d_def by (rule f)
  have ih: "forEach_from (Suc i) f xs m' = (fst m' @ fst r, snd m' @ snd r)" for m'
    unfolding r_def by (rule Cons.IH)
  show ?case
    by (simp add: d_def [symmetric] step ih)
qed

lemma fold_acc:
  assumes f: "\<And>x e. f x e = e @ f x []"
  shows "fold f xs e = e @ fold f xs []"
proof (induction xs arbitrary: e)
  case Nil
  show ?case by simp
next
  case (Cons x xs)
  define d where "d = f x []"
  define r where "r = fold f xs []"
  have step: "f x e' = e' @ d" for e'
    unfolding d_def by (rule f)
  have ih: "fold f xs e' = e' @ r" for e'
    unfolding r_def by (rule Cons.IH)
  show ?case
    by (simp add: step ih)
qed

lemma validateAction_acc:
  "validateAction p a i m =
     (fst m @ fst (validateAction p a i ([], [])), snd m @ snd (validateAction p a i ([], [])))"
  by (simp add: validateAction_def Let_def split: json.splits)

lemma validateResource_acc:
  "validateResource p a i m =
     (fst m @ fst (validateResource p a i ([], [])), snd m @ snd (validateResource p a i ([], [])))"
  by (simp add: validateResource_def Let_def split: json.splits)

lemma validateActions_acc:
  "validateActions v p e w =
     (e @ fst (validateActions v p [] []), w @ snd (validateActions v p [] []))"
  unfolding validateActions_def Let_def js_forEach_def
  using forEach_from_acc [of "validateAction p" 0 "js_as_list v" "(e, w)", OF validateAction_acc]
  by simp

lemma validateResources_acc:
  "validateResources v p e w =
     (e @ fst (validateResources v p [] []), w @ snd (validateResources v p [] []))"
  unfolding validateResources_def Let_def js_forEach_def
  using forEach_from_acc [of "validateResource p" 0 "js_as_list v" "(e, w)", OF validateResource_acc]
  by simp

lemma validateOperator_acc: "validateOperator p c k e = e @ validateOperator p c k []"
  by (simp add: validateOperator_def Let_def)

lemma validateCondition_acc:
  "validateCondition v p e w =
     (e @ fst (validateCondition v p [] []), w @ snd (validateCondition v p [] []))"
  unfolding validateCondition_def Let_def
  using fold_acc [of "validateOperator p v" "js_keys v" e, OF validateOperator_acc]
  by simp

lemma sid_check_acc: "sid_check p sid e = e @ sid_check p sid []"
  by (simp add: sid_check_def Let_def split: option.splits json.splits)

lemma effect_check_acc:
  "effect_check p eff e =
     (case effect_check p eff [] of Inl ex \<Rightarrow> Inl ex | Inr d \<Rightarrow> Inr (e @ d))"
  by (simp add: effect_check_def Let_def split: option.splits)

lemma when_truthy_acc:
  assumes g: "\<And>v e w. g v e w = (e @ fst (g v [] []), w @ snd (g v [] []))"
  shows "when_truthy fld (\<lambda>v. g v e w) (e, w) =
     (e @ fst (when_truthy fld (\<lambda>v. g v [] []) ([], [])),
      w @ snd (when_truthy fld (\<lambda>v. g v [] []) ([], [])))"
  unfolding when_truthy_def
  by (cases fld) (simp_all add: g [symmetric])

lemma unknown_field_acc:
  "fold (\<lambda>key warnings. if P key then warnings @ [g key] else warnings) ks w =
   w @ fold (\<lambda>key warnings. if P key then warnings @ [g key] else warnings) ks []"
  by (rule fold_acc) simp

lemma validateStatement_normal:
  fixes stmt :: json and idx :: nat
  defines "pfx \<equiv> ''Statement['' @ js_nat_str idx @ '']''"
  shows \<open>validateStatement stmt idx e w =
    (if \<not> js_is_object stmt then Inr (e @ [pfx @ '': Must be an object''], w)
     else case effect_check pfx (js_get stmt ''Effect'') [] of
        Inl ex \<Rightarrow> Inl ex
      | Inr effE \<Rightarrow> Inr
         (e @ sid_check pfx (js_get stmt ''Sid'') [] @ effE @
            (if \<not> js_truthy (js_get stmt ''Action'') \<and> \<not> js_truthy (js_get stmt ''NotAction'')
             then [pfx @ '': Missing "Action" or "NotAction"''] else []) @
            (if js_truthy (js_get stmt ''Action'') \<and> js_truthy (js_get stmt ''NotAction'')
             then [pfx @ '': Cannot have both "Action" and "NotAction"''] else []) @
            fst (when_truthy (js_get stmt ''Action'')
                   (\<lambda>v. validateActions v (pfx @ ''.Action'') [] []) ([], [])) @
            fst (when_truthy (js_get stmt ''NotAction'')
                   (\<lambda>v. validateActions v (pfx @ ''.NotAction'') [] []) ([], [])) @
            (if \<not> js_truthy (js_get stmt ''Resource'') \<and> \<not> js_truthy (js_get stmt ''NotResource'')
             then [pfx @ '': Missing "Resource" or "NotResource"''] else []) @
            (if js_truthy (js_get stmt ''Resource'') \<and> js_truthy (js_get stmt ''NotResource'')
             then [pfx @ '': Cannot have both "Resource" and "NotResource"''] else []) @
            fst (when_truthy (js_get stmt ''Resource'')
                   (\<lambda>v. validateResources v (pfx @ ''.Resource'') [] []) ([], [])) @
            fst (when_truthy (js_get stmt ''NotResource'')
                   (\<lambda>v. validateResources v (pfx @ ''.NotResource'') [] []) ([], [])) @
            fst (when_truthy (js_get stmt ''Condition'')
                   (\<lambda>v. validateCondition v (pfx @ ''.Condition'') [] []) ([], [])),
          w @ (if js_truthy (js_get stmt ''Principal'') then [principal_ignored pfx] else []) @
            (if js_truthy (js_get stmt ''NotPrincipal'') then [notprincipal_ignored pfx] else []) @
            snd (when_truthy (js_get stmt ''Action'')
                   (\<lambda>v. validateActions v (pfx @ ''.Action'') [] []) ([], [])) @
            snd (when_truthy (js_get stmt ''NotAction'')
                   (\<lambda>v. validateActions v (pfx @ ''.NotAction'') [] []) ([], [])) @
            snd (when_truthy (js_get stmt ''Resource'')
                   (\<lambda>v. validateResources v (pfx @ ''.Resource'') [] []) ([], [])) @
            snd (when_truthy (js_get stmt ''NotResource'')
                   (\<lambda>v. validateResources v (pfx @ ''.NotResource'') [] []) ([], [])) @
            snd (when_truthy (js_get stmt ''Condition'')
                   (\<lambda>v. validateCondition v (pfx @ ''.Condition'') [] []) ([], [])) @
            fold (\<lambda>key warnings.
                    if key \<notin> set validStmtFields
                    then warnings @ [pfx @ '': Unknown field "'' @ key @ ''"'']
                    else warnings)
              (js_keys stmt) []))\<close>
proof (cases "js_is_object stmt")
  case False
  then show ?thesis
    by (simp add: validateStatement_def Let_def pfx_def)
next
  case True
  define dS where "dS = sid_check pfx (js_get stmt ''Sid'') []"
  define dA where "dA = when_truthy (js_get stmt ''Action'')
                   (\<lambda>v. validateActions v (pfx @ ''.Action'') [] []) ([], [])"
  define dNA where "dNA = when_truthy (js_get stmt ''NotAction'')
                   (\<lambda>v. validateActions v (pfx @ ''.NotAction'') [] []) ([], [])"
  define dR where "dR = when_truthy (js_get stmt ''Resource'')
                   (\<lambda>v. validateResources v (pfx @ ''.Resource'') [] []) ([], [])"
  define dNR where "dNR = when_truthy (js_get stmt ''NotResource'')
                   (\<lambda>v. validateResources v (pfx @ ''.NotResource'') [] []) ([], [])"
  define dC where "dC = when_truthy (js_get stmt ''Condition'')
                   (\<lambda>v. validateCondition v (pfx @ ''.Condition'') [] []) ([], [])"
  define dU where \<open>dU = fold (\<lambda>key warnings.
                    if key \<notin> set validStmtFields
                    then warnings @ [pfx @ '': Unknown field "'' @ key @ ''"'']
                    else warnings)
              (js_keys stmt) []\<close>
  have rS: "sid_check pfx (js_get stmt ''Sid'') e' = e' @ dS" for e'
    unfolding dS_def by (rule sid_check_acc)
  have rA: "when_truthy (js_get stmt ''Action'')
              (\<lambda>v. validateActions v (pfx @ ''.Action'') e' w') (e', w') =
            (e' @ fst dA, w' @ snd dA)" for e' w'
    unfolding dA_def by (rule when_truthy_acc) (rule validateActions_acc)
  have rNA: "when_truthy (js_get stmt ''NotAction'')
              (\<lambda>v. validateActions v (pfx @ ''.NotAction'') e' w') (e', w') =
            (e' @ fst dNA, w' @ snd dNA)" for e' w'
    unfolding dNA_def by (rule when_truthy_acc) (rule validateActions_acc)
  have rR: "when_truthy (js_get stmt ''Resource'')
              (\<lambda>v. validateResources v (pfx @ ''.Resource'') e' w') (e', w') =
            (e' @ fst dR, w' @ snd dR)" for e' w'
    unfolding dR_def by (rule when_truthy_acc) (rule validateResources_acc)
  have rNR: "when_truthy (js_get stmt ''NotResource'')
              (\<lambda>v. validateResources v (pfx @ ''.NotResource'') e' w') (e', w') =
            (e' @ fst dNR, w' @ snd dNR)" for e' w'
    unfolding dNR_def by (rule when_truthy_acc) (rule validateResources_acc)
  have rC: "when_truthy (js_get stmt ''Condition'')
              (\<lambda>v. validateCondition v (pfx @ ''.Condition'') e' w') (e', w') =
            (e' @ fst dC, w' @ snd dC)" for e' w'
    unfolding dC_def by (rule when_truthy_acc) (rule validateCondition_acc)
  have rU: \<open>fold (\<lambda>key warnings.
                    if key \<notin> set validStmtFields
                    then warnings @ [pfx @ '': Unknown field "'' @ key @ ''"'']
                    else warnings)
              (js_keys stmt) w' = w' @ dU\<close> for w'
    unfolding dU_def by (rule unknown_field_acc)
  have rE: "effect_check pfx (js_get stmt ''Effect'') (e @ dS) =
     (case effect_check pfx (js_get stmt ''Effect'') [] of Inl ex \<Rightarrow> Inl ex | Inr d \<Rightarrow> Inr ((e @ dS) @ d))"
    by (rule effect_check_acc)
  show ?thesis
    unfolding validateStatement_def Let_def pfx_def [symmetric]
    unfolding rS rE
    using True
    by (cases "effect_check pfx (js_get stmt ''Effect'') []")
      (simp_all add: rA rNA rR rNR rC rU dS_def [symmetric] dA_def [symmetric]
         dNA_def [symmetric] dR_def [symmetric] dNR_def [symmetric] dC_def [symmetric]
         dU_def [symmetric])
qed

text \<open>A statement without one of its keys: every other key reads as before.\<close>

lemma map_of_filter_other:
  "k \<noteq> k' \<Longrightarrow> map_of (filter (\<lambda>kv. fst kv \<noteq> k') kvs) k = map_of kvs k"
  by (induction kvs) auto

lemma map_of_filter_self: "map_of (filter (\<lambda>kv. fst kv \<noteq> k) kvs) k = None"
  by (induction kvs) auto

lemma js_get_without_other:
  "k \<noteq> k' \<Longrightarrow> js_get (JObj (filter (\<lambda>kv. fst kv \<noteq> k') kvs)) k = js_get (JObj kvs) k"
  by (simp add: js_get_def map_of_filter_other)

lemma js_get_without_self: "js_get (JObj (filter (\<lambda>kv. fst kv \<noteq> k) kvs)) k = None"
  by (simp add: js_get_def map_of_filter_self)

lemma fold_keys_without:
  assumes "\<And>w. g k w = w"
  shows "fold g (map fst (filter (\<lambda>kv. fst kv \<noteq> k) kvs)) w = fold g (map fst kvs) w"
  using assms by (induction kvs arbitrary: w) auto

lemma unknown_fields_without:
  assumes "k \<in> set validStmtFields"
  shows \<open>fold (\<lambda>key warnings.
                 if key \<notin> set validStmtFields
                 then warnings @ [pfx @ '': Unknown field "'' @ key @ ''"'']
                 else warnings)
           (js_keys (JObj (filter (\<lambda>kv. fst kv \<noteq> k) kvs))) w =
         fold (\<lambda>key warnings.
                 if key \<notin> set validStmtFields
                 then warnings @ [pfx @ '': Unknown field "'' @ key @ ''"'']
                 else warnings)
           (js_keys (JObj kvs)) w\<close>
  unfolding js_keys.simps using assms by (intro fold_keys_without) simp

lemma principal_fields: "''Principal'' \<in> set validStmtFields" "''NotPrincipal'' \<in> set validStmtFields"
  by (simp_all add: validStmtFields_def)


lemma statement_without_principal:
  fixes kvs idx
  defines "rest \<equiv> JObj (filter (\<lambda>kv. fst kv \<noteq> ''Principal'') kvs)"
    and "pfx \<equiv> ''Statement['' @ js_nat_str idx @ '']''"
  shows "validateStatement (JObj kvs) idx [] [] =
     (case validateStatement rest idx [] [] of
        Inl ex \<Rightarrow> Inl ex
      | Inr m \<Rightarrow>
          Inr (fst m,
               (if js_truthy (map_of kvs ''Principal'') then [principal_ignored pfx] else []) @ snd m))"
proof -
  have P: "js_get (JObj kvs) ''Principal'' = map_of kvs ''Principal''"
    by (simp add: js_get_def)
  have gets: "js_get rest ''Principal'' = None"
    "js_get rest ''Sid'' = js_get (JObj kvs) ''Sid''"
    "js_get rest ''Effect'' = js_get (JObj kvs) ''Effect''"
    "js_get rest ''NotPrincipal'' = js_get (JObj kvs) ''NotPrincipal''"
    "js_get rest ''Action'' = js_get (JObj kvs) ''Action''"
    "js_get rest ''NotAction'' = js_get (JObj kvs) ''NotAction''"
    "js_get rest ''Resource'' = js_get (JObj kvs) ''Resource''"
    "js_get rest ''NotResource'' = js_get (JObj kvs) ''NotResource''"
    "js_get rest ''Condition'' = js_get (JObj kvs) ''Condition''"
    unfolding rest_def by (simp_all add: js_get_without_other js_get_without_self)
  note unk = unknown_fields_without [OF principal_fields(1), of _ kvs, folded rest_def]
  have obj: "js_is_object rest" "js_is_object (JObj kvs)"
    by (simp_all add: rest_def)
  show ?thesis
    unfolding validateStatement_normal pfx_def [symmetric] gets unk
    by (cases "effect_check pfx (js_get (JObj kvs) ''Effect'') []")
      (simp_all add: obj P split del: if_split)
qed

lemma statement_without_notprincipal:
  fixes kvs idx
  defines "rest \<equiv> JObj (filter (\<lambda>kv. fst kv \<noteq> ''NotPrincipal'') kvs)"
    and "pfx \<equiv> ''Statement['' @ js_nat_str idx @ '']''"
    and "n \<equiv> (if js_truthy (map_of kvs ''Principal'') then 1 else 0 :: nat)"
  shows "validateStatement (JObj kvs) idx [] [] =
     (case validateStatement rest idx [] [] of
        Inl ex \<Rightarrow> Inl ex
      | Inr m \<Rightarrow>
          Inr (fst m,
               take n (snd m) @
               (if js_truthy (map_of kvs ''NotPrincipal'') then [notprincipal_ignored pfx] else []) @
               drop n (snd m)))"
proof -
  have P: "js_get (JObj kvs) ''Principal'' = map_of kvs ''Principal''"
    and NP: "js_get (JObj kvs) ''NotPrincipal'' = map_of kvs ''NotPrincipal''"
    by (simp_all add: js_get_def)
  have gets: "js_get rest ''NotPrincipal'' = None"
    "js_get rest ''Sid'' = js_get (JObj kvs) ''Sid''"
    "js_get rest ''Effect'' = js_get (JObj kvs) ''Effect''"
    "js_get rest ''Principal'' = js_get (JObj kvs) ''Principal''"
    "js_get rest ''Action'' = js_get (JObj kvs) ''Action''"
    "js_get rest ''NotAction'' = js_get (JObj kvs) ''NotAction''"
    "js_get rest ''Resource'' = js_get (JObj kvs) ''Resource''"
    "js_get rest ''NotResource'' = js_get (JObj kvs) ''NotResource''"
    "js_get rest ''Condition'' = js_get (JObj kvs) ''Condition''"
    unfolding rest_def by (simp_all add: js_get_without_other js_get_without_self)
  note unk = unknown_fields_without [OF principal_fields(2), of _ kvs, folded rest_def]
  have obj: "js_is_object rest" "js_is_object (JObj kvs)"
    by (simp_all add: rest_def)
  show ?thesis
  proof (cases "js_truthy (map_of kvs ''Principal'')")
    case True
    then have n: "n = 1" by (simp add: n_def)
    show ?thesis
      unfolding validateStatement_normal pfx_def [symmetric] gets unk n
      using True
      by (cases "effect_check pfx (js_get (JObj kvs) ''Effect'') []")
        (simp_all add: obj P NP split del: if_split)
  next
    case False
    then have n: "n = 0" by (simp add: n_def)
    show ?thesis
      unfolding validateStatement_normal pfx_def [symmetric] gets unk n
      using False
      by (cases "effect_check pfx (js_get (JObj kvs) ''Effect'') []")
        (simp_all add: obj P NP split del: if_split)
  qed
qed

section \<open>Claims about validateStatement and validateCondition\<close>

text \<open>
  C7, as stated: a \<^verbatim>\<open>Principal\<close> key that is present always adds one warning, whatever
  its value. The test is \<^verbatim>\<open>if (stmt.Principal)\<close>: with the empty string as its value the
  key is present and the statement gets no warning at all.
\<close>

theorem C7_counterexample:
  "map_of [(''Effect'', JStr ''Allow''), (''Principal'', JStr []),
           (''Action'', JStr ''s3:GetObject''), (''Resource'', JStr ''*'')] ''Principal'' =
     Some (JStr []) \<and>
   validateStatement
     (JObj [(''Effect'', JStr ''Allow''), (''Principal'', JStr []),
            (''Action'', JStr ''s3:GetObject''), (''Resource'', JStr ''*'')]) 0 [] [] =
     Inr ([], [])"
  by code_simp

text \<open>
  C7, amended: a \<^verbatim>\<open>Principal\<close> key whose value is truthy (anything but \<^verbatim>\<open>null\<close>,
  \<^verbatim>\<open>false\<close>, \<^verbatim>\<open>0\<close> and the empty string) adds no error and exactly one warning, that
  the field is ignored: the statement is validated as the statement without the key is,
  with that warning put first. The same holds for \<^verbatim>\<open>NotPrincipal\<close>, whose warning comes
  after the one of \<^verbatim>\<open>Principal\<close>, if any. A key with a falsy value changes nothing. The
  value of the key is not looked at otherwise.
\<close>

theorem C7_truthy_principal_warns:
  "(js_truthy (map_of kvs ''Principal'') \<longrightarrow>
      validateStatement (JObj kvs) idx [] [] =
        (case validateStatement (JObj (filter (\<lambda>kv. fst kv \<noteq> ''Principal'') kvs)) idx [] [] of
           Inl ex \<Rightarrow> Inl ex
         | Inr m \<Rightarrow> Inr (fst m, principal_ignored (''Statement['' @ js_nat_str idx @ '']'') # snd m))) \<and>
   (js_truthy (map_of kvs ''NotPrincipal'') \<longrightarrow>
      validateStatement (JObj kvs) idx [] [] =
        (case validateStatement (JObj (filter (\<lambda>kv. fst kv \<noteq> ''NotPrincipal'') kvs)) idx [] [] of
           Inl ex \<Rightarrow> Inl ex
         | Inr m \<Rightarrow>
             Inr (fst m,
                  take (if js_truthy (map_of kvs ''Principal'') then 1 else 0) (snd m) @
                  notprincipal_ignored (''Statement['' @ js_nat_str idx @ '']'') #
                  drop (if js_truthy (map_of kvs ''Principal'') then 1 else 0) (snd m)))) \<and>
   (\<not> js_truthy (map_of kvs ''Principal'') \<longrightarrow>
      validateStatement (JObj kvs) idx [] [] =
      validateStatement (JObj (filter (\<lambda>kv. fst kv \<noteq> ''Principal'') kvs)) idx [] []) \<and>
   (\<not> js_truthy (map_of kvs ''NotPrincipal'') \<longrightarrow>
      validateStatement (JObj kvs) idx [] [] =
      validateStatement (JObj (filter (\<lambda>kv. fst kv \<noteq> ''NotPrincipal'') kvs)) idx [] [])"
  using statement_without_principal [of kvs idx] statement_without_notprincipal [of kvs idx]
  by (auto split: sum.splits)

theorem C7_witness:
  "validateStatement
     (JObj [(''Effect'', JStr ''Allow''), (''Principal'', JStr ''*''),
            (''Action'', JStr ''s3:GetObject''), (''Resource'', JStr ''*'')]) 0 [] [] =
     Inr ([], [principal_ignored ''Statement[0]''])"
proof -
  let ?kvs = "[(''Effect'', JStr ''Allow''), (''Principal'', JStr ''*''),
               (''Action'', JStr ''s3:GetObject''), (''Resource'', JStr ''*'')]"
  have truthy: "js_truthy (map_of ?kvs ''Principal'')"
    by code_simp
  have rest: "validateStatement (JObj (filter (\<lambda>kv. fst kv \<noteq> ''Principal'') ?kvs)) 0 [] [] =
      Inr ([], [])"
    by code_simp
  have pfx: "''Statement['' @ js_nat_str 0 @ '']'' = ''Statement[0]''"
    by code_simp
  have "validateStatement (JObj ?kvs) 0 [] [] =
        (case validateStatement (JObj (filter (\<lambda>kv. fst kv \<noteq> ''Principal'') ?kvs)) 0 [] [] of
           Inl ex \<Rightarrow> Inl ex
         | Inr m \<Rightarrow> Inr (fst m, principal_ignored (''Statement['' @ js_nat_str 0 @ '']'') # snd m))"
    using C7_truthy_principal_warns [of ?kvs 0, THEN conjunct1] truthy by (rule mp)
  then show ?thesis
    unfolding rest pfx by simp
qed

text \<open>
  The two conditions the spec gives as examples: a known operator over an object block
  has no error, an unknown operator has exactly one.
\<close>

lemma condition_examples:
  \<open>validateCondition (JObj [(''StringLike'', JObj [(''s3:prefix'', JArr [JStr ''a/*''])])])
     ''Statement[0].Condition'' [] [] = ([], []) \<and>
   validateCondition (JObj [(''BogusOperator'', JObj [])]) ''Statement[0].Condition'' [] [] =
     ([''Statement[0].Condition: Unknown condition operator "BogusOperator"''], [])\<close>
  by code_simp

text \<open>A condition that is not a non-null, non-array object gets the one error for that.\<close>

lemma condition_not_object:
  "\<not> js_plain_object (Some c) \<Longrightarrow>
   validateCondition c prefix [] [] = ([prefix @ '': Must be an object''], [])"
  by (simp add: validateCondition_def)

text \<open>
  C8: a condition must be a non-null, non-array object; the set prefix of an operator
  key is stripped before the operator is looked up, an unknown operator is an error and
  so is a block that is not an object. The function does not strip the prefix, it takes
  \<^verbatim>\<open>operator.split(':')[1]\<close>: for the key \<^verbatim>\<open>ForAllValues:StringLike:x\<close> it looks up
  \<^verbatim>\<open>StringLike\<close>, whereas the key without its prefix is \<^verbatim>\<open>StringLike:x\<close>, which is no
  operator, and the condition passes without an error.
\<close>

theorem C8_prefix_not_stripped:
  "js_startsWith ''ForAllValues:StringLike:x'' ''ForAllValues:'' \<and>
   drop (length ''ForAllValues:'') ''ForAllValues:StringLike:x'' = ''StringLike:x'' \<and>
   ''StringLike:x'' \<notin> set validConditionOperators \<and>
   operatorToCheck ''ForAllValues:StringLike:x'' = Some ''StringLike'' \<and>
   validateCondition (JObj [(''ForAllValues:StringLike:x'', JObj [])])
     ''Statement[0].Condition'' [] [] = ([], [])"
  by code_simp

section \<open>Facts about generated policies\<close>

lemma if_push_Nil: "(if c then xs @ [m] else xs) = [] \<longleftrightarrow> \<not> c \<and> xs = []"
  by simp

lemma valid_bucket_facts:
  assumes "isValid (validateBucketName s)"
  shows "length s \<le> 63" and "s \<noteq> []" and "list_all is_bucket_char s"
proof -
  from assms have "\<not> length s > 63 \<and> (s \<noteq> [] \<and> list_all is_bucket_char s)"
    unfolding validateBucketName_def Let_def
    by (simp add: if_push_Nil split del: if_split)
  then show "length s \<le> 63" and "s \<noteq> []" and "list_all is_bucket_char s"
    by auto
qed

lemma digit_char_digit: "d < 10 \<Longrightarrow> is_digit (digit_char d)"
  unfolding digit_char_def is_digit_def by (rule nth_mem) simp

lemma js_nat_str_digits: "list_all is_digit (js_nat_str n)"
proof (induction n rule: js_nat_str.induct)
  case (1 n)
  show ?case
  proof (cases "n < 10")
    case True
    then show ?thesis
      by (subst js_nat_str.simps) (simp add: digit_char_digit)
  next
    case False
    then have "list_all is_digit (js_nat_str (n div 10))"
      using "1.IH" by simp
    moreover have "is_digit (digit_char (n mod 10))"
      by (rule digit_char_digit) simp
    ultimately show ?thesis
      using False by (subst js_nat_str.simps) simp
  qed
qed

lemma js_nat_str_nonempty: "js_nat_str n \<noteq> []"
  by (subst js_nat_str.simps) simp

lemma generated_sid_alnum: "list_all is_alnum (''GeneratedPolicy'' @ js_nat_str now)"
proof -
  have "list_all is_alnum (js_nat_str now)"
    using js_nat_str_digits [of now] by (simp add: list_all_iff is_alnum_def)
  moreover have "list_all is_alnum ''GeneratedPolicy''"
    by (simp add: is_alnum_def is_lower_def is_upper_def)
  ultimately show ?thesis by simp
qed

lemma js_startsWith_prefix: "js_startsWith (p @ s) p"
  by (simp add: js_startsWith_def)

lemma no_double_slash:
  assumes "CHR ''/'' \<notin> set b" "\<not> js_startsWith p ''/''" "\<not> js_includes p ''//''"
  shows "\<not> js_includes (b @ ''/'' @ p) ''//''"
  using assms
proof (induction b)
  case Nil
  then show ?case
    by (cases p) (auto simp: js_startsWith_def)
next
  case (Cons c cs)
  then show ?case
    by (auto simp: js_startsWith_def)
qed


lemma forEach_from_fst:
  assumes "\<And>x i m. x \<in> set xs \<Longrightarrow> fst (f x i m) = fst m"
  shows "fst (forEach_from i f xs m) = fst m"
  using assms by (induction xs arbitrary: i m) simp_all

lemma fold_keep:
  assumes "\<And>x e. x \<in> set xs \<Longrightarrow> f x e = e"
  shows "fold f xs e = e"
  using assms by (induction xs arbitrary: e) simp_all

lemma js_as_list_one_or_array: "js_as_list (one_or_array xs) = map JStr xs"
  by (cases xs rule: list.exhaust [case_product list.exhaust])
     (auto simp: one_or_array_def split: list.splits)

lemma js_truthy_one_or_array:
  assumes "xs \<noteq> []" "\<forall>x \<in> set xs. x \<noteq> []"
  shows "js_truthy (Some (one_or_array xs))"
  using assms by (auto simp: one_or_array_def split: list.splits)

lemma validateAction_ok:
  "js_includes a '':'' \<Longrightarrow> fst (validateAction p (JStr a) i m) = fst m"
  by (simp add: validateAction_def Let_def)

lemma validateActions_ok:
  assumes "actions \<noteq> []" "\<forall>a \<in> set actions. js_includes a '':''"
  shows "fst (validateActions (one_or_array actions) p [] []) = []"
proof -
  have "fst (forEach_from 0 (validateAction p) (map JStr actions) m) = fst m" for m
  proof (rule forEach_from_fst)
    fix x i m'
    assume "x \<in> set (map JStr actions)"
    with assms(2) obtain a where "x = JStr a" "js_includes a '':''"
      by auto
    then show "fst (validateAction p x i m') = fst m'"
      by (simp add: validateAction_ok)
  qed
  from this [of "([], [])"] have
    "fst (forEach_from 0 (validateAction p) (map JStr actions) ([], [])) = []"
    by simp
  with assms(1) show ?thesis
    by (simp add: validateActions_def Let_def js_forEach_def js_as_list_one_or_array)
qed

lemma validateResource_ok:
  assumes "js_startsWith r ''arn:aws:s3:::''" "drop 13 r \<noteq> []" "\<not> js_includes (drop 13 r) ''//''"
    "js_includes (drop 13 r) ''/'' \<or> length (drop 13 r) \<le> 63"
  shows "fst (validateResource p (JStr r) i m) = fst m"
  using assms by (auto simp: validateResource_def Let_def)

lemma validateResources_ok:
  assumes "resources \<noteq> []"
    and "\<forall>r \<in> set resources. js_startsWith r ''arn:aws:s3:::'' \<and> drop 13 r \<noteq> [] \<and>
           \<not> js_includes (drop 13 r) ''//'' \<and>
           (js_includes (drop 13 r) ''/'' \<or> length (drop 13 r) \<le> 63)"
  shows "fst (validateResources (one_or_array resources) p [] []) = []"
proof -
  have "fst (forEach_from 0 (validateResource p) (map JStr resources) m) = fst m" for m
  proof (rule forEach_from_fst)
    fix x i m'
    assume "x \<in> set (map JStr resources)"
    with assms(2) obtain r where "x = JStr r" "js_startsWith r ''arn:aws:s3:::''"
      "drop 13 r \<noteq> []" "\<not> js_includes (drop 13 r) ''//''"
      "js_includes (drop 13 r) ''/'' \<or> length (drop 13 r) \<le> 63"
      by auto
    then show "fst (validateResource p x i m') = fst m'"
      by (simp add: validateResource_ok)
  qed
  from this [of "([], [])"] have
    "fst (forEach_from 0 (validateResource p) (map JStr resources) ([], [])) = []"
    by simp
  with assms(1) show ?thesis
    by (simp add: validateResources_def Let_def js_forEach_def js_as_list_one_or_array)
qed

lemma bucket_arn_ok:
  assumes "b \<noteq> []" "list_all is_bucket_char b" "length b \<le> 63"
  shows "js_startsWith (''arn:aws:s3:::'' @ b) ''arn:aws:s3:::'' \<and>
         drop 13 (''arn:aws:s3:::'' @ b) \<noteq> [] \<and>
         \<not> js_includes (drop 13 (''arn:aws:s3:::'' @ b)) ''//'' \<and>
         (js_includes (drop 13 (''arn:aws:s3:::'' @ b)) ''/'' \<or>
          length (drop 13 (''arn:aws:s3:::'' @ b)) \<le> 63)"
proof -
  have "\<not> is_bucket_char CHR ''/''"
    by (simp add: is_bucket_char_def is_lower_digit_def is_lower_def is_digit_def)
  with assms(2) have "CHR ''/'' \<notin> set b"
    by (auto simp: list_all_iff)
  then have "\<not> js_includes b ''//''"
    using js_includes_set [of b "''//''"] by auto
  with assms show ?thesis
    by (simp add: js_startsWith_def)
qed

lemma object_arn_ok:
  assumes "list_all is_bucket_char b" "\<not> js_startsWith p ''/''" "\<not> js_includes p ''//''"
  shows "js_startsWith (''arn:aws:s3:::'' @ b @ ''/'' @ p) ''arn:aws:s3:::'' \<and>
         drop 13 (''arn:aws:s3:::'' @ b @ ''/'' @ p) \<noteq> [] \<and>
         \<not> js_includes (drop 13 (''arn:aws:s3:::'' @ b @ ''/'' @ p)) ''//'' \<and>
         (js_includes (drop 13 (''arn:aws:s3:::'' @ b @ ''/'' @ p)) ''/'' \<or>
          length (drop 13 (''arn:aws:s3:::'' @ b @ ''/'' @ p)) \<le> 63)"
proof -
  have "\<not> is_bucket_char CHR ''/''"
    by (simp add: is_bucket_char_def is_lower_digit_def is_lower_def is_digit_def)
  with assms(1) have "CHR ''/'' \<notin> set b"
    by (auto simp: list_all_iff)
  then have "\<not> js_includes (b @ ''/'' @ p) ''//''"
    using assms(2,3) by (rule no_double_slash)
  moreover have "js_includes (b @ ''/'' @ p) ''/''"
    by (simp add: js_includes_single)
  ultimately show ?thesis
    by (simp add: js_startsWith_def)
qed

lemma validateOperator_ok:
  assumes "operatorToCheck k \<in> set (map Some validConditionOperators)"
    "js_plain_object (js_get c k)"
  shows "validateOperator p c k e = e"
  using assms by (simp add: validateOperator_def Let_def)

lemma validateCondition_ok:
  assumes "\<forall>k \<in> set (map fst kvs).
             operatorToCheck k \<in> set (map Some validConditionOperators) \<and>
             js_plain_object (map_of kvs k)"
  shows "fst (validateCondition (JObj kvs) p [] []) = []"
proof -
  have "fold (validateOperator p (JObj kvs)) (map fst kvs) [] = []"
    using assms by (intro fold_keep validateOperator_ok) (auto simp: js_get_def)
  then show ?thesis
    by (simp add: validateCondition_def Let_def)
qed

lemma validatePolicy_built:
  "validatePolicy (build_policy stmt) =
     (case validateStatement (JObj stmt) 0 [] [] of
        Inl ex \<Rightarrow> Inl ex
      | Inr m \<Rightarrow> Inr (verdict_of (fst m) (snd m)))"
  by (simp add: validatePolicy_def build_policy_def version_check_def statement_check_def
      js_get_def validRootFields_def Let_def split: sum.splits)

lemma when_truthy_Some: "js_truthy (Some v) \<Longrightarrow> when_truthy (Some v) g m = g v"
  by (simp add: when_truthy_def)

lemma when_truthy_None: "when_truthy None g m = m"
  by (simp add: when_truthy_def)

lemma when_truthy_falsy: "\<not> js_truthy (Some v) \<Longrightarrow> when_truthy (Some v) g m = m"
  by (simp add: when_truthy_def)

lemma generated_statement_ok:
  assumes sid: "sid \<noteq> []" "list_all is_alnum sid"
    and eff: "eff = ''Allow'' \<or> eff = ''Deny''"
    and A: "js_truthy (Some A)" "\<And>p. fst (validateActions A p [] []) = []"
    and R: "js_truthy (Some R)" "\<And>p. fst (validateResources R p [] []) = []"
    and C: "cond = [] \<or>
            (\<exists>c. cond = [(''Condition'', c)] \<and>
                 (js_truthy (Some c) \<longrightarrow> (\<forall>p. fst (validateCondition c p [] []) = [])))"
  shows "\<exists>w. validateStatement
            (JObj ([(''Sid'', JStr sid), (''Effect'', JStr eff), (''Action'', A),
                    (''Resource'', R)] @ cond)) idx [] [] = Inr ([], w)"
proof -
  define stmt where "stmt = JObj ([(''Sid'', JStr sid), (''Effect'', JStr eff), (''Action'', A),
                    (''Resource'', R)] @ cond)"
  define pfx where "pfx = ''Statement['' @ js_nat_str idx @ '']''"
  from C have keys: "js_get stmt ''Sid'' = Some (JStr sid)"
    "js_get stmt ''Effect'' = Some (JStr eff)"
    "js_get stmt ''Action'' = Some A"
    "js_get stmt ''Resource'' = Some R"
    "js_get stmt ''Principal'' = None"
    "js_get stmt ''NotPrincipal'' = None"
    "js_get stmt ''NotAction'' = None"
    "js_get stmt ''NotResource'' = None"
    by (auto simp: js_get_def stmt_def)
  have obj: "js_is_object stmt" by (simp add: stmt_def)
  have s: "sid_check pfx (Some (JStr sid)) [] = []"
    using sid by (simp add: sid_check_def)
  have e: "effect_check pfx (Some (JStr eff)) [] = Inr []"
    using eff by (auto simp: effect_check_def)
  have a: "fst (when_truthy (Some A) (\<lambda>v. validateActions v (pfx @ ''.Action'') [] []) ([], [])) = []"
    using A by (simp add: when_truthy_Some)
  have r: "fst (when_truthy (Some R) (\<lambda>v. validateResources v (pfx @ ''.Resource'') [] []) ([], [])) = []"
    using R by (simp add: when_truthy_Some)
  have c: "fst (when_truthy (js_get stmt ''Condition'')
                 (\<lambda>v. validateCondition v (pfx @ ''.Condition'') [] []) ([], [])) = []"
    using C by (auto simp: js_get_def when_truthy_def stmt_def)
  have "fst (projr (validateStatement stmt idx [] [])) = [] \<and>
        \<not> isl (validateStatement stmt idx [] [])"
    unfolding validateStatement_normal pfx_def [symmetric]
    unfolding keys
    using obj A(1) R(1)
    by (simp add: s e a r c when_truthy_None split del: if_split)
  then have "\<exists>w. validateStatement stmt idx [] [] = Inr ([], w)"
    by (cases "validateStatement stmt idx [] []") (auto simp: prod_eq_iff)
  then show ?thesis
    unfolding stmt_def .
qed


lemma build_resources_ok:
  assumes b: "b \<noteq> []" "list_all is_bucket_char b" "length b \<le> 63"
    and p: "needsObjectResource as \<longrightarrow> \<not> js_startsWith p ''/'' \<and> \<not> js_includes p ''//''"
  shows "build_resources b p as \<noteq> []"
    and "\<forall>r \<in> set (build_resources b p as).
           js_startsWith r ''arn:aws:s3:::'' \<and> drop 13 r \<noteq> [] \<and>
           \<not> js_includes (drop 13 r) ''//'' \<and>
           (js_includes (drop 13 r) ''/'' \<or> length (drop 13 r) \<le> 63)"
proof -
  show "build_resources b p as \<noteq> []"
    by (simp add: build_resources_cases)
  have star: "\<not> js_startsWith ''*'' ''/''" "\<not> js_includes ''*'' ''//''"
    by (simp_all add: js_startsWith_def)
  note bucket = bucket_arn_ok [OF b]
  note fallback = object_arn_ok [OF b(2) star, simplified]
  show "\<forall>r \<in> set (build_resources b p as).
           js_startsWith r ''arn:aws:s3:::'' \<and> drop 13 r \<noteq> [] \<and>
           \<not> js_includes (drop 13 r) ''//'' \<and>
           (js_includes (drop 13 r) ''/'' \<or> length (drop 13 r) \<le> 63)"
  proof (cases "needsObjectResource as")
    case True
    with p have "\<not> js_startsWith p ''/''" "\<not> js_includes p ''//''" by auto
    note object = object_arn_ok [OF b(2) this]
    from True bucket object show ?thesis
      unfolding build_resources_cases by (cases "needsBucketResource as") simp_all
  next
    case False
    with bucket fallback show ?thesis
      unfolding build_resources_cases by (cases "needsBucketResource as") simp_all
  qed
qed

section \<open>The round trip: generatePolicy, then validatePolicy\<close>

text \<open>
  C1, as stated: the policy of every successful call of \<^verbatim>\<open>generatePolicy\<close> passes
  \<^verbatim>\<open>validatePolicy\<close> without an error. The custom actions are taken as typed: with the line
  \<^verbatim>\<open>GetObject\<close> the policy is generated and its validation reports one error.
\<close>

theorem C1_counterexample:
  \<open>generatePolicy (\<lambda>s. None) 1
     \<lparr>bucketName_field = ''test-bucket'', policyEffect_field = ''Allow'',
      resourcePath_field = [], checked_boxes = [''s3:GetObject''],
      customActions_field = ''GetObject'', condition_field = []\<rparr> =
     Inr (build_policy
        [(''Sid'', JStr ''GeneratedPolicy1''), (''Effect'', JStr ''Allow''),
         (''Action'', JArr [JStr ''s3:GetObject'', JStr ''GetObject'']),
         (''Resource'', JStr ''arn:aws:s3:::test-bucket/*'')]) \<and>
   validatePolicy (build_policy
        [(''Sid'', JStr ''GeneratedPolicy1''), (''Effect'', JStr ''Allow''),
         (''Action'', JArr [JStr ''s3:GetObject'', JStr ''GetObject'']),
         (''Resource'', JStr ''arn:aws:s3:::test-bucket/*'')]) =
     Inr \<lparr>isValid = False,
          errors = [''Statement[0].Action[1]: Invalid format "GetObject". Must be "service:action"''],
          warnings = []\<rparr>\<close>
  by code_simp

text \<open>
  C1, amended: the policy of a successful call passes \<^verbatim>\<open>validatePolicy\<close> with no error when,
  besides the effect being \<^verbatim>\<open>Allow\<close> or \<^verbatim>\<open>Deny\<close>, every collected action contains a colon,
  the resource path neither starts with a slash nor contains two adjacent slashes if some
  action contains \<^verbatim>\<open>Object\<close>, and the parsed condition, if the text is not blank, is falsy
  or an object whose keys are all recognised operators over object blocks.
\<close>

theorem C1_round_trip:
  fixes f :: form
  defines "path \<equiv> (if js_trim (resourcePath_field f) = [] then ''*''
                    else js_trim (resourcePath_field f))"
  assumes gen: "generatePolicy parse now f = Inr doc"
    and eff: "policyEffect_field f = ''Allow'' \<or> policyEffect_field f = ''Deny''"
    and acts: "\<forall>a \<in> set (collect_actions f). js_includes a '':''"
    and pth: "(\<exists>a \<in> set (collect_actions f). js_includes a ''Object'') \<longrightarrow>
                \<not> js_startsWith path ''/'' \<and> \<not> js_includes path ''//''"
    and cnd: "\<forall>c. js_trim (condition_field f) \<noteq> [] \<and>
                 parse (js_trim (condition_field f)) = Some c \<longrightarrow>
                 \<not> js_truthy (Some c) \<or>
                 (\<exists>kvs. c = JObj kvs \<and>
                    (\<forall>k \<in> set (map fst kvs).
                       operatorToCheck k \<in> set (map Some validConditionOperators) \<and>
                       js_plain_object (map_of kvs k)))"
  shows "\<exists>v. validatePolicy doc = Inr v \<and> errors v = [] \<and> isValid v"
proof -
  let ?b = "js_trim (bucketName_field f)"
  let ?as = "collect_actions f"
  let ?rs = "build_resources ?b path ?as"
  from generatePolicy_Inr [OF gen] obtain cond where
    doc: "doc = build_policy (build_statement now (policyEffect_field f) ?as ?rs @ cond)"
    and cond: "if js_trim (condition_field f) = [] then cond = []
               else \<exists>c. parse (js_trim (condition_field f)) = Some c \<and> cond = [(''Condition'', c)]"
    unfolding path_def by blast
  note gate = generatePolicy_gate [OF gen]
  note bucket = valid_bucket_facts [OF gate(2)]
  have ob: "needsObjectResource ?as \<longrightarrow> \<not> js_startsWith path ''/'' \<and> \<not> js_includes path ''//''"
    using pth by (simp add: needsObjectResource_def list_ex_iff)
  note rs = build_resources_ok [OF bucket(2,3,1) ob]
  have sid: "''GeneratedPolicy'' @ js_nat_str now \<noteq> []" by simp
  have nonempty: "\<forall>a \<in> set ?as. a \<noteq> []"
    using acts by auto
  have A: "js_truthy (Some (one_or_array ?as))"
    using gate(3) nonempty by (rule js_truthy_one_or_array)
  have "\<forall>r \<in> set ?rs. r \<noteq> []"
    using rs(2) by (auto simp: js_startsWith_def)
  with rs(1) have R: "js_truthy (Some (one_or_array ?rs))"
    by (rule js_truthy_one_or_array)
  have C: "cond = [] \<or>
            (\<exists>c. cond = [(''Condition'', c)] \<and>
                 (js_truthy (Some c) \<longrightarrow> (\<forall>p. fst (validateCondition c p [] []) = [])))"
  proof (cases "js_trim (condition_field f) = []")
    case True
    with cond show ?thesis by simp
  next
    case False
    with cond obtain c where c: "parse (js_trim (condition_field f)) = Some c"
      "cond = [(''Condition'', c)]"
      by auto
    with cnd False have "\<not> js_truthy (Some c) \<or>
                 (\<exists>kvs. c = JObj kvs \<and>
                    (\<forall>k \<in> set (map fst kvs).
                       operatorToCheck k \<in> set (map Some validConditionOperators) \<and>
                       js_plain_object (map_of kvs k)))"
      by blast
    then have "js_truthy (Some c) \<longrightarrow> (\<forall>p. fst (validateCondition c p [] []) = [])"
      using validateCondition_ok by blast
    with c(2) show ?thesis by blast
  qed
  have "\<exists>w. validateStatement
            (JObj ([(''Sid'', JStr (''GeneratedPolicy'' @ js_nat_str now)),
                    (''Effect'', JStr (policyEffect_field f)),
                    (''Action'', one_or_array ?as),
                    (''Resource'', one_or_array ?rs)] @ cond)) 0 [] [] = Inr ([], w)"
    using sid generated_sid_alnum eff A validateActions_ok [OF gate(3) acts] R
      validateResources_ok [OF rs] C
    by (rule generated_statement_ok)
  then obtain w where
    "validateStatement (JObj (build_statement now (policyEffect_field f) ?as ?rs @ cond)) 0 [] [] =
       Inr ([], w)"
    unfolding build_statement_def by blast
  then have "validatePolicy doc = Inr (verdict_of [] w)"
    unfolding doc validatePolicy_built by simp
  then show ?thesis
    by (simp add: verdict_of_def)
qed

theorem C1_witness:
  \<open>\<exists>v. validatePolicy (build_policy
        [(''Sid'', JStr ''GeneratedPolicy1''), (''Effect'', JStr ''Deny''),
         (''Action'', JArr [JStr ''s3:ListBucket'', JStr ''s3:GetObject'']),
         (''Resource'', JArr [JStr ''arn:aws:s3:::test-bucket'',
                              JStr ''arn:aws:s3:::test-bucket/logs/*'']),
         (''Condition'', JObj [(''Bool'', JObj [(''aws:SecureTransport'', JStr ''false'')])])]) =
       Inr v \<and> errors v = [] \<and> isValid v\<close>
proof -
  let ?parse = "\<lambda>s :: string. Some (JObj [(''Bool'', JObj [(''aws:SecureTransport'', JStr ''false'')])])"
  let ?f = \<open>\<lparr>bucketName_field = ''test-bucket'', policyEffect_field = ''Deny'',
        resourcePath_field = ''logs/*'', checked_boxes = [''s3:ListBucket'', ''s3:GetObject''],
        customActions_field = [],
        condition_field = ''{"Bool":{"aws:SecureTransport":"false"}}''\<rparr>\<close>
  have gen: "generatePolicy ?parse 1 ?f =
      Inr (build_policy
        [(''Sid'', JStr ''GeneratedPolicy1''), (''Effect'', JStr ''Deny''),
         (''Action'', JArr [JStr ''s3:ListBucket'', JStr ''s3:GetObject'']),
         (''Resource'', JArr [JStr ''arn:aws:s3:::test-bucket'',
                              JStr ''arn:aws:s3:::test-bucket/logs/*'']),
         (''Condition'', JObj [(''Bool'', JObj [(''aws:SecureTransport'', JStr ''false'')])])])"
    by code_simp
  have eff: "policyEffect_field ?f = ''Allow'' \<or> policyEffect_field ?f = ''Deny''"
    by simp
  have acts: "\<forall>a \<in> set (collect_actions ?f). js_includes a '':''"
    by code_simp
  have pth: "(\<exists>a \<in> set (collect_actions ?f). js_includes a ''Object'') \<longrightarrow>
      \<not> js_startsWith (if js_trim (resourcePath_field ?f) = [] then ''*''
                        else js_trim (resourcePath_field ?f)) ''/'' \<and>
      \<not> js_includes (if js_trim (resourcePath_field ?f) = [] then ''*''
                      else js_trim (resourcePath_field ?f)) ''//''"
    by code_simp
  have op: "operatorToCheck ''Bool'' \<in> set (map Some validConditionOperators)"
    by code_simp
  have cnd: "\<forall>c. js_trim (condition_field ?f) \<noteq> [] \<and>
                 ?parse (js_trim (condition_field ?f)) = Some c \<longrightarrow>
                 \<not> js_truthy (Some c) \<or>
                 (\<exists>kvs. c = JObj kvs \<and>
                    (\<forall>k \<in> set (map fst kvs).
                       operatorToCheck k \<in> set (map Some validConditionOperators) \<and>
                       js_plain_object (map_of kvs k)))"
    using op by auto
  from C1_round_trip [OF gen eff acts pth cnd] show ?thesis .
qed

end
